theory Spec2Isabelle
  imports Complex_Main "HOL-Library.AList"
begin

section \<open>TrafficSim: the simulation core\<close>

text \<open>
  A shallow embedding of \<^verbatim>\<open>python_backend/core\<close>: \<^verbatim>\<open>driver.py\<close>, \<^verbatim>\<open>vehicle.py\<close>,
  \<^verbatim>\<open>lane.py\<close> and \<^verbatim>\<open>model.py\<close>. Python floats are modelled by the reals (no rounding,
  no overflow), Python's unbounded integers by \<open>int\<close>. Objects live in an explicit store
  addressed by references; a Python exception is a value of type \<open>error\<close>.
\<close>

datatype error = IndexError | ZeroDivisionError | ValueError

subsection \<open>Route (driver.py)\<close>

record Route =
  route_id :: int
  lane_sequence :: "int list"
  current_index :: int

text \<open>\<^verbatim>\<open>Route.__init__(route_id, lane_sequence)\<close>: the cursor starts at 0.\<close>

definition Route_init :: "int \<Rightarrow> int list \<Rightarrow> Route" where
  "Route_init rid seq = \<lparr>route_id = rid, lane_sequence = seq, current_index = 0\<rparr>"

text \<open>
  Python list indexing \<^verbatim>\<open>xs[i]\<close>: a negative index counts from the end, an index out of
  range raises \<^verbatim>\<open>IndexError\<close>.
\<close>

definition py_index :: "'a list \<Rightarrow> int \<Rightarrow> error + 'a" where
  "py_index xs i =
     (if 0 \<le> i \<and> i < int (length xs) then Inr (xs ! nat i)
      else if i < 0 \<and> - int (length xs) \<le> i then Inr (xs ! nat (int (length xs) + i))
      else Inl IndexError)"

text \<open>
  \<^verbatim>\<open>get_current_target_lane\<close> only reads the route: the lane id under the cursor, or
  \<^verbatim>\<open>None\<close> once the cursor is at or past the end.
\<close>

definition get_current_target_lane :: "Route \<Rightarrow> error + int option" where
  "get_current_target_lane r =
     (if current_index r < int (length (lane_sequence r))
      then (case py_index (lane_sequence r) (current_index r) of
              Inl e \<Rightarrow> Inl e
            | Inr l \<Rightarrow> Inr (Some l))
      else Inr None)"

text \<open>\<^verbatim>\<open>advance_route\<close>: the cursor moves on only while it is below \<^verbatim>\<open>len - 1\<close>.\<close>

definition advance_route :: "Route \<Rightarrow> Route" where
  "advance_route r =
     (if current_index r < int (length (lane_sequence r)) - 1
      then r\<lparr>current_index := current_index r + 1\<rparr>
      else r)"

definition is_route_complete :: "Route \<Rightarrow> bool" where
  "is_route_complete r \<longleftrightarrow> current_index r \<ge> int (length (lane_sequence r))"

text \<open>The three public operations of a route, as calls a client can make in any order.\<close>

datatype route_call = GetCurrentTargetLane | AdvanceRoute | IsRouteComplete

fun route_step :: "Route \<Rightarrow> route_call \<Rightarrow> Route" where
  "route_step r GetCurrentTargetLane = r"
| "route_step r AdvanceRoute = advance_route r"
| "route_step r IsRouteComplete = r"

definition route_run :: "Route \<Rightarrow> route_call list \<Rightarrow> Route" where
  "route_run r cs = foldl route_step r cs"

subsection \<open>The object store\<close>

text \<open>
  Vehicles, lanes, drivers and routes are Python objects that refer to each other, so the
  model keeps each kind in a store indexed by a reference. Two references are the same
  object exactly when they are equal (Python's \<^verbatim>\<open>in\<close> and \<^verbatim>\<open>remove\<close> on lists of
  vehicles compare by identity, the classes define no \<^verbatim>\<open>__eq__\<close>).

  Not modelled: the observer lists of vehicles, lanes and the model, the lane's
  \<^verbatim>\<open>generators\<close> and \<^verbatim>\<open>rsus\<close> and the model's \<^verbatim>\<open>generators\<close>. They are empty after
  construction, nothing in the core appends to the generator lists, and the callbacks they
  would hold are external code; every loop over them is a loop over the empty list.
\<close>

type_synonym vref = nat
type_synonym lref = nat
type_synonym dref = nat
type_synonym rref = nat

datatype LatDirection = LEFT | RIGHT

datatype Enclosure = FRONT | BACK | LEFT_FRONT | LEFT_BACK | RIGHT_FRONT | RIGHT_BACK

record VehicleState =
  state_x :: real
  state_y :: real
  velocity :: real
  acceleration :: real
  lane_change_progress :: real
  crashed :: bool

text \<open>
  \<^verbatim>\<open>Vehicle.surrounding\<close> is a dictionary created with exactly the six members of
  \<^verbatim>\<open>Enclosure\<close> as keys and written only through \<^verbatim>\<open>update_surrounding(area, vehicle)\<close>
  with a member of \<^verbatim>\<open>Enclosure\<close>: a total function on \<open>Enclosure\<close>.
  \<^verbatim>\<open>accelerations\<close> is the debug dictionary from wall-clock time to acceleration.
\<close>

record Vehicle =
  vehicle_id :: int
  lane :: lref
  state :: VehicleState
  vehicle_length :: real
  vehicle_width :: real
  v_max :: real
  class_id :: int
  lc_direction :: "LatDirection option"
  dy :: real
  surrounding :: "Enclosure \<Rightarrow> vref option"
  driver :: "dref option"
  accelerations :: "real \<rightharpoonup> real"

datatype LaneType = NORMAL_LANE | ACCELERATION | DECELERATION | EXIT | ENTRANCE

record Lane =
  lane_id :: int
  lane_type :: LaneType
  lane_length :: real
  coordinates :: "(real \<times> real) list"
  upstream_lane :: "lref option"
  downstream_lane :: "lref option"
  left_lane :: "lref option"
  right_lane :: "lref option"
  taper_lane :: "lref option"
  vehicles :: "vref list"
  speed_limit :: real
  lane_width :: real

datatype DriverType = AGGRESSIVE | NORMAL | CAUTIOUS | IDM

record IDMDriver =
  idm_id :: int
  idm_type :: DriverType
  idm_vehicle :: "vref option"
  idm_route :: "rref option"
  desired_speed :: real
  time_headway :: real
  min_spacing :: real
  max_acceleration :: real
  comfortable_deceleration :: real
  acceleration_exponent :: nat
  politeness :: real
  lane_change_threshold :: real
  min_lane_change_gap :: real

record SimpleDriver =
  simple_id :: int
  simple_type :: DriverType
  simple_vehicle :: "vref option"
  simple_route :: "rref option"
  simple_desired_speed :: real
  reaction_time :: real
  simple_max_acceleration :: real
  max_deceleration :: real

text \<open>The two implementations of \<^verbatim>\<open>DriverInterface\<close>.\<close>

datatype Driver = AnIDMDriver IDMDriver | ASimpleDriver SimpleDriver

datatype SimulationState = STOPPED | RUNNING | PAUSED | STEP

record SimulationSettings =
  time_step :: real
  max_simulation_time :: real
  debug_mode :: bool
  real_time_factor :: real

record SimulationStats =
  stats_current_time :: real
  total_vehicles :: int
  active_vehicles :: int
  completed_vehicles :: int
  crashed_vehicles :: int
  average_speed :: real
  total_flow :: real
  average_density :: real

text \<open>
  The model's four registries are Python dictionaries, iterated in insertion order:
  association lists with distinct keys. \<^verbatim>\<open>simulation_thread\<close> only records that a worker
  thread was created; what the worker does concurrently is outside a sequential model.
\<close>

datatype Thread = WorkerThread

record TrafficSimulationModel =
  sim_state :: SimulationState
  settings :: SimulationSettings
  stats :: SimulationStats
  lanes :: "(int \<times> lref) list"
  model_vehicles :: "(int \<times> vref) list"
  drivers :: "(int \<times> dref) list"
  routes :: "(int \<times> rref) list"
  start_time :: real
  current_time :: real
  last_update_time :: real
  simulation_thread :: "Thread option"
  stop_simulation_flag :: bool
  next_vehicle_id :: int
  next_driver_id :: int

text \<open>
  The whole program state: the four object stores, the allocation counters of the two
  kinds of object the model itself creates, and the model.
\<close>

record World =
  vehicle_at :: "vref \<Rightarrow> Vehicle"
  lane_at :: "lref \<Rightarrow> Lane"
  driver_at :: "dref \<Rightarrow> Driver"
  route_at :: "rref \<Rightarrow> Route"
  next_vref :: vref
  next_dref :: dref
  model :: TrafficSimulationModel

definition upd_vehicle :: "World \<Rightarrow> vref \<Rightarrow> (Vehicle \<Rightarrow> Vehicle) \<Rightarrow> World" where
  "upd_vehicle w r f = w\<lparr>vehicle_at := (vehicle_at w)(r := f (vehicle_at w r))\<rparr>"

definition upd_state :: "World \<Rightarrow> vref \<Rightarrow> (VehicleState \<Rightarrow> VehicleState) \<Rightarrow> World" where
  "upd_state w r f = upd_vehicle w r (\<lambda>v. v\<lparr>state := f (state v)\<rparr>)"

definition upd_lane :: "World \<Rightarrow> lref \<Rightarrow> (Lane \<Rightarrow> Lane) \<Rightarrow> World" where
  "upd_lane w l f = w\<lparr>lane_at := (lane_at w)(l := f (lane_at w l))\<rparr>"

definition upd_model :: "World \<Rightarrow> (TrafficSimulationModel \<Rightarrow> TrafficSimulationModel) \<Rightarrow> World" where
  "upd_model w f = w\<lparr>model := f (model w)\<rparr>"

subsection \<open>Vehicle (vehicle.py)\<close>

text \<open>\<^verbatim>\<open>Vehicle.__init__(vehicle_id, lane, initial_x)\<close>.\<close>

definition Vehicle_init :: "int \<Rightarrow> lref \<Rightarrow> real \<Rightarrow> Vehicle" where
  "Vehicle_init vid l initial_x =
     \<lparr>vehicle_id = vid, lane = l,
      state = \<lparr>state_x = initial_x, state_y = 0, velocity = 0, acceleration = 0,
               lane_change_progress = 0, crashed = False\<rparr>,
      vehicle_length = 4.5, vehicle_width = 2.0, v_max = 50.0, class_id = 1,
      lc_direction = None, dy = 0,
      surrounding = (\<lambda>area. None), driver = None, accelerations = Map.empty\<rparr>"

text \<open>
  A key handed to a lookup in \<^verbatim>\<open>surrounding\<close>. The source looks up members of
  \<^verbatim>\<open>Enclosure\<close>, the string \<^verbatim>\<open>'FRONT'\<close>, \<^verbatim>\<open>None\<close> and (were the string ever found) a
  vehicle. \<^verbatim>\<open>Enclosure\<close> is a plain \<^verbatim>\<open>Enum\<close>: a member equals only itself, never a
  string, \<^verbatim>\<open>None\<close> or a vehicle, so only a member of \<^verbatim>\<open>Enclosure\<close> is ever found.
\<close>

datatype py_key = EnclosureKey Enclosure | StrKey string | NoneKey | VehicleKey vref

text \<open>\<^verbatim>\<open>key in d\<close> and \<^verbatim>\<open>d.get(key)\<close> and \<^verbatim>\<open>d[key]\<close> on such a dictionary.\<close>

fun dict_contains :: "(Enclosure \<Rightarrow> vref option) \<Rightarrow> py_key \<Rightarrow> bool" where
  "dict_contains d (EnclosureKey a) = True"
| "dict_contains d k = False"

fun dict_get :: "(Enclosure \<Rightarrow> vref option) \<Rightarrow> py_key \<Rightarrow> vref option" where
  "dict_get d (EnclosureKey a) = d a"
| "dict_get d k = None"

text \<open>A value read from the dictionary and used as a key of the next lookup.\<close>

fun value_as_key :: "vref option \<Rightarrow> py_key" where
  "value_as_key None = NoneKey"
| "value_as_key (Some r) = VehicleKey r"

definition get_vehicle :: "World \<Rightarrow> vref \<Rightarrow> py_key \<Rightarrow> vref option" where
  "get_vehicle w r area = dict_get (surrounding (vehicle_at w r)) area"

definition update_surrounding :: "World \<Rightarrow> vref \<Rightarrow> Enclosure \<Rightarrow> vref option \<Rightarrow> World" where
  "update_surrounding w r area other =
     upd_vehicle w r (\<lambda>v. v\<lparr>surrounding := (surrounding v)(area := other)\<rparr>)"

definition get_lane :: "World \<Rightarrow> vref \<Rightarrow> lref" where
  "get_lane w r = lane (vehicle_at w r)"

definition get_x :: "World \<Rightarrow> vref \<Rightarrow> real" where
  "get_x w r = state_x (state (vehicle_at w r))"

definition get_velocity :: "World \<Rightarrow> vref \<Rightarrow> real" where
  "get_velocity w r = velocity (state (vehicle_at w r))"

definition get_acceleration :: "World \<Rightarrow> vref \<Rightarrow> real" where
  "get_acceleration w r = acceleration (state (vehicle_at w r))"

definition is_changing_lane :: "World \<Rightarrow> vref \<Rightarrow> bool" where
  "is_changing_lane w r \<longleftrightarrow> lane_change_progress (state (vehicle_at w r)) > 0"

definition get_lane_change_direction :: "World \<Rightarrow> vref \<Rightarrow> LatDirection option" where
  "get_lane_change_direction w r =
     (if is_changing_lane w r then lc_direction (vehicle_at w r) else None)"

text \<open>
  \<^verbatim>\<open>get_gap(leader)\<close> for a leader that is a vehicle. (For \<^verbatim>\<open>leader is None\<close> the source
  returns \<^verbatim>\<open>float('inf')\<close>; its only caller passes a vehicle.)
\<close>

definition get_gap :: "World \<Rightarrow> vref \<Rightarrow> vref \<Rightarrow> real" where
  "get_gap w r leader =
     max 0 (get_x w leader - get_x w r - vehicle_length (vehicle_at w leader))"

definition set_acceleration :: "World \<Rightarrow> vref \<Rightarrow> real \<Rightarrow> World" where
  "set_acceleration w r a = upd_state w r (\<lambda>s. s\<lparr>acceleration := a\<rparr>)"

definition set_velocity :: "World \<Rightarrow> vref \<Rightarrow> real \<Rightarrow> World" where
  "set_velocity w r v = upd_state w r (\<lambda>s. s\<lparr>velocity := max 0 v\<rparr>)"

definition crash :: "World \<Rightarrow> vref \<Rightarrow> World" where
  "crash w r = upd_state w r (\<lambda>s. s\<lparr>crashed := True, velocity := 0, acceleration := 0\<rparr>)"

text \<open>
  \<^verbatim>\<open>start_lane_change(direction, duration)\<close>: the direction is stored first, then
  \<^verbatim>\<open>1.0 / duration\<close> is computed, which raises for \<^verbatim>\<open>duration == 0\<close>.
\<close>

definition start_lane_change ::
  "World \<Rightarrow> vref \<Rightarrow> LatDirection \<Rightarrow> real \<Rightarrow> error option \<times> World" where
  "start_lane_change w r direction duration =
     (if \<not> is_changing_lane w r then
        (let w1 = upd_vehicle w r (\<lambda>v. v\<lparr>lc_direction := Some direction\<rparr>)
         in if duration = 0 then (Some ZeroDivisionError, w1)
            else (None, upd_vehicle w1 r (\<lambda>v. v\<lparr>dy := 1 / duration\<rparr>)))
      else (None, w))"

subsection \<open>Lane (lane.py)\<close>

text \<open>\<^verbatim>\<open>Lane.__init__(lane_id, lane_type, length, coordinates)\<close>; an absent or empty
  coordinate list gives the default straight lane.\<close>

definition Lane_init :: "int \<Rightarrow> LaneType \<Rightarrow> real \<Rightarrow> (real \<times> real) list \<Rightarrow> Lane" where
  "Lane_init lid ty len coords =
     \<lparr>lane_id = lid, lane_type = ty, lane_length = len,
      coordinates = (if coords \<noteq> [] then coords else [(0, 0), (len, 0)]),
      upstream_lane = None, downstream_lane = None, left_lane = None, right_lane = None,
      taper_lane = None, vehicles = [], speed_limit = 33.33, lane_width = 3.5\<rparr>"

text \<open>
  \<^verbatim>\<open>add_vehicle\<close>: a vehicle not yet in the list is appended, the list is sorted by
  position (Python's sort is stable, as is \<open>sort_key\<close>), and the vehicle's lane reference
  is set. A vehicle already in the list changes nothing.
\<close>

definition Lane_add_vehicle :: "World \<Rightarrow> lref \<Rightarrow> vref \<Rightarrow> World" where
  "Lane_add_vehicle w l r =
     (if r \<notin> set (vehicles (lane_at w l)) then
        (let w1 = upd_lane w l (\<lambda>ln. ln\<lparr>vehicles := sort_key (get_x w) (vehicles ln @ [r])\<rparr>)
         in upd_vehicle w1 r (\<lambda>v. v\<lparr>lane := l\<rparr>))
      else w)"

text \<open>\<^verbatim>\<open>remove_vehicle\<close>: \<^verbatim>\<open>list.remove\<close> deletes the first occurrence.\<close>

definition Lane_remove_vehicle :: "World \<Rightarrow> lref \<Rightarrow> vref \<Rightarrow> World" where
  "Lane_remove_vehicle w l r =
     (if r \<in> set (vehicles (lane_at w l))
      then upd_lane w l (\<lambda>ln. ln\<lparr>vehicles := remove1 r (vehicles ln)\<rparr>)
      else w)"

text \<open>
  Python's \<^verbatim>\<open>min(candidates, key=...)\<close> and \<^verbatim>\<open>max(candidates, key=...)\<close> on a non-empty
  list: a later element replaces the current best only when its key is strictly smaller
  (strictly larger), so the first of several equal ones is returned.
\<close>

fun py_min_key :: "('a \<Rightarrow> real) \<Rightarrow> 'a \<Rightarrow> 'a list \<Rightarrow> 'a" where
  "py_min_key f best [] = best"
| "py_min_key f best (c # cs) = (if f c < f best then py_min_key f c cs else py_min_key f best cs)"

fun py_max_key :: "('a \<Rightarrow> real) \<Rightarrow> 'a \<Rightarrow> 'a list \<Rightarrow> 'a" where
  "py_max_key f best [] = best"
| "py_max_key f best (c # cs) = (if f c > f best then py_max_key f c cs else py_max_key f best cs)"

definition get_leading_vehicle :: "World \<Rightarrow> lref \<Rightarrow> real \<Rightarrow> vref option" where
  "get_leading_vehicle w l position =
     (case filter (\<lambda>v. get_x w v > position) (vehicles (lane_at w l)) of
        [] \<Rightarrow> None
      | c # cs \<Rightarrow> Some (py_min_key (get_x w) c cs))"

definition get_following_vehicle :: "World \<Rightarrow> lref \<Rightarrow> real \<Rightarrow> vref option" where
  "get_following_vehicle w l position =
     (case filter (\<lambda>v. get_x w v < position) (vehicles (lane_at w l)) of
        [] \<Rightarrow> None
      | c # cs \<Rightarrow> Some (py_max_key (get_x w) c cs))"

text \<open>
  \<^verbatim>\<open>get_neighbors(vehicle)\<close> builds a dictionary with the keys \<^verbatim>\<open>'leader'\<close> and
  \<^verbatim>\<open>'follower'\<close> and, where the adjacent lane exists, the keys of the lateral neighbours;
  \<^verbatim>\<open>update_vehicle_surroundings\<close> reads it with \<^verbatim>\<open>.get\<close>, so an absent key reads as
  \<^verbatim>\<open>None\<close>. The record holds what \<^verbatim>\<open>.get\<close> returns for each of the six keys.
\<close>

record Neighbors =
  leader :: "vref option"
  follower :: "vref option"
  left_leader :: "vref option"
  left_follower :: "vref option"
  right_leader :: "vref option"
  right_follower :: "vref option"

definition get_neighbors :: "World \<Rightarrow> lref \<Rightarrow> vref \<Rightarrow> Neighbors" where
  "get_neighbors w l r =
     (let position = get_x w r
      in \<lparr>leader = get_leading_vehicle w l position,
          follower = get_following_vehicle w l position,
          left_leader = (case left_lane (lane_at w l) of
                           Some ll \<Rightarrow> get_leading_vehicle w ll position | None \<Rightarrow> None),
          left_follower = (case left_lane (lane_at w l) of
                             Some ll \<Rightarrow> get_following_vehicle w ll position | None \<Rightarrow> None),
          right_leader = (case right_lane (lane_at w l) of
                            Some rl \<Rightarrow> get_leading_vehicle w rl position | None \<Rightarrow> None),
          right_follower = (case right_lane (lane_at w l) of
                              Some rl \<Rightarrow> get_following_vehicle w rl position | None \<Rightarrow> None)\<rparr>)"

text \<open>One iteration of the loop of \<^verbatim>\<open>update_vehicle_surroundings\<close>, then the loop.\<close>

definition update_one_surrounding :: "lref \<Rightarrow> vref \<Rightarrow> World \<Rightarrow> World" where
  "update_one_surrounding l r w =
     (let neighbors = get_neighbors w l r;
          w1 = update_surrounding w r FRONT (leader neighbors);
          w2 = update_surrounding w1 r BACK (follower neighbors);
          w3 = update_surrounding w2 r LEFT_FRONT (left_leader neighbors);
          w4 = update_surrounding w3 r LEFT_BACK (left_follower neighbors);
          w5 = update_surrounding w4 r RIGHT_FRONT (right_leader neighbors)
      in update_surrounding w5 r RIGHT_BACK (right_follower neighbors))"

definition update_vehicle_surroundings :: "World \<Rightarrow> lref \<Rightarrow> World" where
  "update_vehicle_surroundings w l = fold (update_one_surrounding l) (vehicles (lane_at w l)) w"

definition get_density :: "World \<Rightarrow> lref \<Rightarrow> real" where
  "get_density w l =
     (if lane_length (lane_at w l) \<le> 0 then 0
      else (real (length (vehicles (lane_at w l))) / lane_length (lane_at w l)) * 1000)"

definition get_average_speed :: "World \<Rightarrow> lref \<Rightarrow> real" where
  "get_average_speed w l =
     (if vehicles (lane_at w l) = [] then 0
      else sum_list (map (get_velocity w) (vehicles (lane_at w l)))
           / real (length (vehicles (lane_at w l))))"

definition get_flow :: "World \<Rightarrow> lref \<Rightarrow> real" where
  "get_flow w l =
     (if vehicles (lane_at w l) = [] then 0
      else (let avg_speed = sum_list (map (get_velocity w) (vehicles (lane_at w l)))
                            / real (length (vehicles (lane_at w l)));
                density = get_density w l
            in density * avg_speed * 3.6))"

text \<open>
  \<^verbatim>\<open>is_safe_lane_change(vehicle, target_lane, min_gap)\<close> reads only the target lane, not
  the lane it is called on.
\<close>

definition is_safe_lane_change :: "World \<Rightarrow> vref \<Rightarrow> lref option \<Rightarrow> real \<Rightarrow> bool" where
  "is_safe_lane_change w r target_lane min_gap =
     (case target_lane of
        None \<Rightarrow> False
      | Some t \<Rightarrow>
          (let position = get_x w r;
               leader_ok = (case get_leading_vehicle w t position of
                              None \<Rightarrow> True
                            | Some ld \<Rightarrow>
                                \<not> (get_x w ld - position - vehicle_length (vehicle_at w r) < min_gap))
           in if \<not> leader_ok then False
              else (case get_following_vehicle w t position of
                      None \<Rightarrow> True
                    | Some fl \<Rightarrow>
                        \<not> (position - get_x w fl - vehicle_length (vehicle_at w fl) < min_gap))))"

text \<open>The four connection setters also set the opposite link of the other lane.\<close>

definition set_upstream_lane :: "World \<Rightarrow> lref \<Rightarrow> lref option \<Rightarrow> World" where
  "set_upstream_lane w l other =
     (let w1 = upd_lane w l (\<lambda>ln. ln\<lparr>upstream_lane := other\<rparr>)
      in case other of None \<Rightarrow> w1
         | Some ol \<Rightarrow> upd_lane w1 ol (\<lambda>ln. ln\<lparr>downstream_lane := Some l\<rparr>))"

definition set_downstream_lane :: "World \<Rightarrow> lref \<Rightarrow> lref option \<Rightarrow> World" where
  "set_downstream_lane w l other =
     (let w1 = upd_lane w l (\<lambda>ln. ln\<lparr>downstream_lane := other\<rparr>)
      in case other of None \<Rightarrow> w1
         | Some ol \<Rightarrow> upd_lane w1 ol (\<lambda>ln. ln\<lparr>upstream_lane := Some l\<rparr>))"

definition set_left_lane :: "World \<Rightarrow> lref \<Rightarrow> lref option \<Rightarrow> World" where
  "set_left_lane w l other =
     (let w1 = upd_lane w l (\<lambda>ln. ln\<lparr>left_lane := other\<rparr>)
      in case other of None \<Rightarrow> w1
         | Some ol \<Rightarrow> upd_lane w1 ol (\<lambda>ln. ln\<lparr>right_lane := Some l\<rparr>))"

definition set_right_lane :: "World \<Rightarrow> lref \<Rightarrow> lref option \<Rightarrow> World" where
  "set_right_lane w l other =
     (let w1 = upd_lane w l (\<lambda>ln. ln\<lparr>right_lane := other\<rparr>)
      in case other of None \<Rightarrow> w1
         | Some ol \<Rightarrow> upd_lane w1 ol (\<lambda>ln. ln\<lparr>left_lane := Some l\<rparr>))"

text \<open>The part of a lane that adding, removing and moving vehicles never changes.\<close>

definition lane_static :: "Lane \<Rightarrow> Lane" where
  "lane_static la = la\<lparr>vehicles := []\<rparr>"

subsection \<open>Vehicle: completing a lane change and moving (vehicle.py)\<close>

text \<open>
  \<^verbatim>\<open>end_lane_change\<close>: the target (\<open>target_lane_of\<close>, the local \<^verbatim>\<open>target_lane\<close>) is the
  left or right neighbour the vehicle's current lane has when the method runs. With a target the vehicle leaves its lane's list, takes the
  target as its lane and is added to the target's list; with or without one the progress,
  the direction and the lateral speed are reset.
\<close>

definition target_lane_of :: "World \<Rightarrow> vref \<Rightarrow> lref option" where
  "target_lane_of w r =
     (case lc_direction (vehicle_at w r) of
        Some LEFT \<Rightarrow> left_lane (lane_at w (lane (vehicle_at w r)))
      | Some RIGHT \<Rightarrow> right_lane (lane_at w (lane (vehicle_at w r)))
      | None \<Rightarrow> None)"

definition end_lane_change :: "World \<Rightarrow> vref \<Rightarrow> World" where
  "end_lane_change w r =
     (if is_changing_lane w r then
        (let w3 = (case target_lane_of w r of
                     Some t \<Rightarrow>
                       (let w1 = Lane_remove_vehicle w (lane (vehicle_at w r)) r;
                            w2 = upd_vehicle w1 r (\<lambda>v. v\<lparr>lane := t\<rparr>)
                        in Lane_add_vehicle w2 t r)
                   | None \<Rightarrow> w);
             w4 = upd_state w3 r (\<lambda>s. s\<lparr>lane_change_progress := 0\<rparr>)
         in upd_vehicle w4 r (\<lambda>v. v\<lparr>lc_direction := None, dy := 0\<rparr>))
      else w)"

text \<open>
  \<^verbatim>\<open>move(dt)\<close>, in the three parts its comments name. \<open>now\<close> is the value
  \<^verbatim>\<open>time.time()\<close> returns inside this call, the key of the debug entry. A crashed vehicle
  returns at once.
\<close>

definition store_acceleration :: "World \<Rightarrow> vref \<Rightarrow> real \<Rightarrow> World" where
  "store_acceleration w r now =
     upd_vehicle w r (\<lambda>v. v\<lparr>accelerations := (accelerations v)(now \<mapsto> acceleration (state v))\<rparr>)"

definition lateral_movement :: "World \<Rightarrow> vref \<Rightarrow> real \<Rightarrow> World" where
  "lateral_movement w r dt =
     (if dy (vehicle_at w r) \<noteq> 0 then
        (let wp = upd_state w r
                    (\<lambda>s. s\<lparr>lane_change_progress :=
                             lane_change_progress s + dy (vehicle_at w r) * dt\<rparr>)
         in if lane_change_progress (state (vehicle_at wp r)) \<ge> 1
            then end_lane_change wp r else wp)
      else w)"

definition longitudinal_movement :: "World \<Rightarrow> vref \<Rightarrow> real \<Rightarrow> World" where
  "longitudinal_movement w r dt =
     (let dx = max 0 (dt * velocity (state (vehicle_at w r))
                      + 0.5 * acceleration (state (vehicle_at w r)) * dt * dt);
          w1 = upd_state w r (\<lambda>s. s\<lparr>velocity := velocity s + dt * acceleration s\<rparr>);
          w2 = upd_state w1 r (\<lambda>s. s\<lparr>velocity := max 0 (velocity s)\<rparr>);
          w3 = upd_state w2 r (\<lambda>s. s\<lparr>state_x := state_x s + dx\<rparr>)
      in upd_state w3 r
           (\<lambda>s. s\<lparr>state_y := state_y s
                     + (if is_changing_lane w3 r then dy (vehicle_at w3 r) * dt else 0)\<rparr>))"

definition Vehicle_move :: "World \<Rightarrow> vref \<Rightarrow> real \<Rightarrow> real \<Rightarrow> World" where
  "Vehicle_move w r now dt =
     (if crashed (state (vehicle_at w r)) then w
      else longitudinal_movement (lateral_movement (store_acceleration w r now) r dt) r dt)"

subsection \<open>Drivers (driver.py)\<close>

text \<open>\<^verbatim>\<open>IDMDriver.__init__\<close>: the default parameters, then the adjustment for the type.\<close>

definition adjust_parameters_for_type :: "IDMDriver \<Rightarrow> IDMDriver" where
  "adjust_parameters_for_type drv =
     (case idm_type drv of
        AGGRESSIVE \<Rightarrow>
          drv\<lparr>time_headway := 1.0, min_spacing := 1.5, max_acceleration := 2.5,
              comfortable_deceleration := 4.0, politeness := 0.2,
              desired_speed := desired_speed drv * 1.1\<rparr>
      | CAUTIOUS \<Rightarrow>
          drv\<lparr>time_headway := 2.5, min_spacing := 3.0, max_acceleration := 1.5,
              comfortable_deceleration := 2.0, politeness := 0.8,
              desired_speed := desired_speed drv * 0.9\<rparr>
      | NORMAL \<Rightarrow> drv
      | IDM \<Rightarrow> drv)"

definition IDMDriver_init :: "int \<Rightarrow> DriverType \<Rightarrow> IDMDriver" where
  "IDMDriver_init did ty =
     adjust_parameters_for_type
       \<lparr>idm_id = did, idm_type = ty, idm_vehicle = None, idm_route = None,
        desired_speed = 33.33, time_headway = 1.5, min_spacing = 2.0,
        max_acceleration = 2.0, comfortable_deceleration = 3.0,
        acceleration_exponent = 4, politeness = 0.5, lane_change_threshold = 0.2,
        min_lane_change_gap = 10.0\<rparr>"

definition SimpleDriver_init :: "int \<Rightarrow> DriverType \<Rightarrow> SimpleDriver" where
  "SimpleDriver_init did ty =
     \<lparr>simple_id = did, simple_type = ty, simple_vehicle = None, simple_route = None,
      simple_desired_speed = 30.0, reaction_time = 1.0, simple_max_acceleration = 2.0,
      max_deceleration = 3.0\<rparr>"

definition create_driver :: "int \<Rightarrow> DriverType \<Rightarrow> Driver" where
  "create_driver did ty =
     (if ty = IDM then AnIDMDriver (IDMDriver_init did ty)
      else ASimpleDriver (SimpleDriver_init did ty))"

fun get_id :: "Driver \<Rightarrow> int" where
  "get_id (AnIDMDriver drv) = idm_id drv"
| "get_id (ASimpleDriver drv) = simple_id drv"

fun driver_vehicle :: "Driver \<Rightarrow> vref option" where
  "driver_vehicle (AnIDMDriver drv) = idm_vehicle drv"
| "driver_vehicle (ASimpleDriver drv) = simple_vehicle drv"

fun with_vehicle :: "vref \<Rightarrow> Driver \<Rightarrow> Driver" where
  "with_vehicle r (AnIDMDriver drv) = AnIDMDriver (drv\<lparr>idm_vehicle := Some r\<rparr>)"
| "with_vehicle r (ASimpleDriver drv) = ASimpleDriver (drv\<lparr>simple_vehicle := Some r\<rparr>)"

fun with_route :: "rref \<Rightarrow> Driver \<Rightarrow> Driver" where
  "with_route rt (AnIDMDriver drv) = AnIDMDriver (drv\<lparr>idm_route := Some rt\<rparr>)"
| "with_route rt (ASimpleDriver drv) = ASimpleDriver (drv\<lparr>simple_route := Some rt\<rparr>)"

text \<open>\<^verbatim>\<open>set_vehicle(vehicle)\<close> links both ways; \<^verbatim>\<open>set_route(route)\<close> stores the route.\<close>

definition set_vehicle :: "World \<Rightarrow> dref \<Rightarrow> vref \<Rightarrow> World" where
  "set_vehicle w d r =
     (let w1 = w\<lparr>driver_at := (driver_at w)(d := with_vehicle r (driver_at w d))\<rparr>
      in upd_vehicle w1 r (\<lambda>v. v\<lparr>driver := Some d\<rparr>))"

definition set_route :: "World \<Rightarrow> dref \<Rightarrow> rref \<Rightarrow> World" where
  "set_route w d rt = w\<lparr>driver_at := (driver_at w)(d := with_route rt (driver_at w d))\<rparr>"

text \<open>
  \<^verbatim>\<open>IDMDriver._calculate_acceleration\<close> (an Isabelle name cannot start with an
  underscore). The leader is looked up as
  \<^verbatim>\<open>get_vehicle(surrounding['FRONT'] if 'FRONT' in surrounding else None)\<close>: first the
  string \<^verbatim>\<open>'FRONT'\<close> is sought among the keys, then the outcome is itself used as the key
  of \<^verbatim>\<open>get_vehicle\<close>.

  Exceptions: \<^verbatim>\<open>v / desired_speed\<close> raises for a zero divisor; \<^verbatim>\<open>math.sqrt\<close> raises
  \<^verbatim>\<open>ValueError\<close> for a negative argument, and the division by twice the root raises when
  the root is zero. For a gap of zero the float interaction term is \<^verbatim>\<open>inf\<close>; with a
  positive \<^verbatim>\<open>max_acceleration\<close> (all presets) the product is \<^verbatim>\<open>-inf\<close> and the maximum
  with \<^verbatim>\<open>-comfortable_deceleration\<close> is the latter, which is what the model returns there.
\<close>

definition calculate_acceleration :: "World \<Rightarrow> IDMDriver \<Rightarrow> error + real" where
  "calculate_acceleration w drv =
     (case idm_vehicle drv of
        None \<Rightarrow> Inr 0
      | Some veh \<Rightarrow>
          (let v = get_velocity w veh;
               front_key = (if dict_contains (surrounding (vehicle_at w veh)) (StrKey ''FRONT'')
                            then value_as_key (dict_get (surrounding (vehicle_at w veh))
                                                 (StrKey ''FRONT''))
                            else NoneKey);
               front = get_vehicle w veh front_key
           in if desired_speed drv = 0 then Inl ZeroDivisionError
              else
                (let free_acceleration =
                       max_acceleration drv
                       * (1 - (v / desired_speed drv) ^ acceleration_exponent drv)
                 in case front of
                      None \<Rightarrow> Inr free_acceleration
                    | Some ld \<Rightarrow>
                        (let gap = get_gap w veh ld;
                             leader_velocity = get_velocity w ld;
                             velocity_diff = v - leader_velocity
                         in if max_acceleration drv * comfortable_deceleration drv < 0
                            then Inl ValueError
                            else if 2 * sqrt (max_acceleration drv * comfortable_deceleration drv) = 0
                            then Inl ZeroDivisionError
                            else
                              (let desired_gap =
                                     min_spacing drv + time_headway drv * v
                                     + (v * velocity_diff)
                                       / (2 * sqrt (max_acceleration drv
                                                    * comfortable_deceleration drv))
                               in if gap > 0
                                  then Inr (max (max_acceleration drv
                                                 * (1 - (v / desired_speed drv)
                                                        ^ acceleration_exponent drv
                                                      - (desired_gap / gap)\<^sup>2))
                                                (- comfortable_deceleration drv))
                                  else Inr (- comfortable_deceleration drv))))))"

text \<open>\<^verbatim>\<open>IDMDriver._should_change_lane(target_lane)\<close>.\<close>

definition should_change_lane :: "World \<Rightarrow> IDMDriver \<Rightarrow> lref \<Rightarrow> error + bool" where
  "should_change_lane w drv target_lane =
     (case idm_vehicle drv of
        None \<Rightarrow> Inr False
      | Some veh \<Rightarrow>
          (case calculate_acceleration w drv of
             Inl e \<Rightarrow> Inl e
           | Inr current_accel \<Rightarrow>
               (case get_leading_vehicle w target_lane (get_x w veh) of
                  None \<Rightarrow>
                    Inr (max_acceleration drv - current_accel > lane_change_threshold drv)
                | Some target_leader \<Rightarrow>
                    (let gap = get_x w target_leader - get_x w veh
                               - vehicle_length (vehicle_at w veh)
                     in if gap \<le> 0 then Inr False
                        else
                          (let v = get_velocity w veh;
                               leader_velocity = get_velocity w target_leader;
                               velocity_diff = v - leader_velocity
                           in if max_acceleration drv * comfortable_deceleration drv < 0
                              then Inl ValueError
                              else if 2 * sqrt (max_acceleration drv
                                                * comfortable_deceleration drv) = 0
                              then Inl ZeroDivisionError
                              else if desired_speed drv = 0 then Inl ZeroDivisionError
                              else
                                (let desired_gap =
                                       min_spacing drv + time_headway drv * v
                                       + (v * velocity_diff)
                                         / (2 * sqrt (max_acceleration drv
                                                      * comfortable_deceleration drv));
                                     interaction_term = (desired_gap / gap)\<^sup>2;
                                     target_accel =
                                       max_acceleration drv
                                       * (1 - (v / desired_speed drv)
                                              ^ acceleration_exponent drv
                                            - interaction_term)
                                 in Inr (target_accel - current_accel
                                         > lane_change_threshold drv)))))))"

text \<open>
  \<^verbatim>\<open>IDMDriver._consider_lane_change\<close>: the left lane is tried first; the right lane is
  tried when the left one is absent, not worth it or not safe. Both calls of
  \<^verbatim>\<open>is_safe_lane_change\<close> and of \<^verbatim>\<open>start_lane_change\<close> use the default arguments
  (\<^verbatim>\<open>min_gap = 10.0\<close>, \<^verbatim>\<open>duration = 3.0\<close>).
\<close>

definition consider_right_lane :: "World \<Rightarrow> IDMDriver \<Rightarrow> vref \<Rightarrow> error option \<times> World" where
  "consider_right_lane w drv veh =
     (case right_lane (lane_at w (get_lane w veh)) of
        None \<Rightarrow> (None, w)
      | Some rl \<Rightarrow>
          (case should_change_lane w drv rl of
             Inl e \<Rightarrow> (Some e, w)
           | Inr worth \<Rightarrow>
               if worth \<and> is_safe_lane_change w veh (Some rl) 10.0
               then start_lane_change w veh RIGHT 3.0
               else (None, w)))"

definition consider_lane_change :: "World \<Rightarrow> IDMDriver \<Rightarrow> error option \<times> World" where
  "consider_lane_change w drv =
     (case idm_vehicle drv of
        None \<Rightarrow> (None, w)
      | Some veh \<Rightarrow>
          if is_changing_lane w veh then (None, w)
          else
            (case left_lane (lane_at w (get_lane w veh)) of
               None \<Rightarrow> consider_right_lane w drv veh
             | Some ll \<Rightarrow>
                 (case should_change_lane w drv ll of
                    Inl e \<Rightarrow> (Some e, w)
                  | Inr worth \<Rightarrow>
                      if worth \<and> is_safe_lane_change w veh (Some ll) 10.0
                      then start_lane_change w veh LEFT 3.0
                      else consider_right_lane w drv veh)))"

text \<open>
  \<^verbatim>\<open>IDMDriver.drive\<close>. The result pairs the exception that ended the call, if any, with
  the state reached: an exception in the lane-change part leaves the new acceleration set.
\<close>

definition IDM_drive :: "World \<Rightarrow> IDMDriver \<Rightarrow> error option \<times> World" where
  "IDM_drive w drv =
     (case idm_vehicle drv of
        None \<Rightarrow> (None, w)
      | Some veh \<Rightarrow>
          if crashed (state (vehicle_at w veh)) then (None, w)
          else
            (case calculate_acceleration w drv of
               Inl e \<Rightarrow> (Some e, w)
             | Inr a \<Rightarrow> consider_lane_change (set_acceleration w veh a) drv))"

text \<open>\<^verbatim>\<open>SimpleDriver.drive\<close>.\<close>

definition Simple_drive :: "World \<Rightarrow> SimpleDriver \<Rightarrow> error option \<times> World" where
  "Simple_drive w drv =
     (case simple_vehicle drv of
        None \<Rightarrow> (None, w)
      | Some veh \<Rightarrow>
          if crashed (state (vehicle_at w veh)) then (None, w)
          else
            (let current_speed = get_velocity w veh;
                 speed_diff = simple_desired_speed drv - current_speed;
                 a = (if speed_diff > 0 then min (simple_max_acceleration drv) speed_diff
                      else max (- max_deceleration drv) speed_diff)
             in (None, set_acceleration w veh a)))"

text \<open>\<^verbatim>\<open>driver.drive()\<close> on a driver object: dispatch on its class.\<close>

definition drive :: "World \<Rightarrow> dref \<Rightarrow> error option \<times> World" where
  "drive w d =
     (case driver_at w d of
        AnIDMDriver drv \<Rightarrow> IDM_drive w drv
      | ASimpleDriver drv \<Rightarrow> Simple_drive w drv)"

subsection \<open>TrafficSimulationModel (model.py)\<close>

text \<open>The model as \<^verbatim>\<open>__init__\<close> leaves it.\<close>

definition SimulationSettings_init :: SimulationSettings where
  "SimulationSettings_init =
     \<lparr>time_step = 0.1, max_simulation_time = 3600.0, debug_mode = False,
      real_time_factor = 1.0\<rparr>"

definition SimulationStats_init :: SimulationStats where
  "SimulationStats_init =
     \<lparr>stats_current_time = 0, total_vehicles = 0, active_vehicles = 0,
      completed_vehicles = 0, crashed_vehicles = 0, average_speed = 0, total_flow = 0,
      average_density = 0\<rparr>"

definition TrafficSimulationModel_init :: TrafficSimulationModel where
  "TrafficSimulationModel_init =
     \<lparr>sim_state = STOPPED, settings = SimulationSettings_init, stats = SimulationStats_init,
      lanes = [], model_vehicles = [], drivers = [], routes = [],
      start_time = 0, current_time = 0, last_update_time = 0,
      simulation_thread = None, stop_simulation_flag = False,
      next_vehicle_id = 1, next_driver_id = 1\<rparr>"

text \<open>Creating an object: it is stored at the next free reference.\<close>

definition new_Vehicle :: "World \<Rightarrow> Vehicle \<Rightarrow> vref \<times> World" where
  "new_Vehicle w v =
     (next_vref w,
      w\<lparr>vehicle_at := (vehicle_at w)(next_vref w := v), next_vref := Suc (next_vref w)\<rparr>)"

definition new_Driver :: "World \<Rightarrow> Driver \<Rightarrow> dref \<times> World" where
  "new_Driver w drv =
     (next_dref w,
      w\<lparr>driver_at := (driver_at w)(next_dref w := drv), next_dref := Suc (next_dref w)\<rparr>)"

text \<open>\<^verbatim>\<open>_update_network\<close>: refresh the neighbour caches lane by lane.\<close>

definition update_network :: "World \<Rightarrow> World" where
  "update_network w =
     fold (\<lambda>l w'. update_vehicle_surroundings w' l) (map snd (lanes (model w))) w"

definition add_lane :: "World \<Rightarrow> lref \<Rightarrow> World" where
  "add_lane w l =
     update_network
       (upd_model w (\<lambda>m. m\<lparr>lanes := AList.update (lane_id (lane_at w l)) l (lanes m)\<rparr>))"

definition add_route :: "World \<Rightarrow> rref \<Rightarrow> World" where
  "add_route w rt =
     upd_model w (\<lambda>m. m\<lparr>routes := AList.update (route_id (route_at w rt)) rt (routes m)\<rparr>)"

text \<open>
  \<^verbatim>\<open>add_vehicle\<close>, in the two phases of its body. Construction (source lines 143 to 151)
  creates the vehicle and the driver and links them; it touches the object stores only.
  Insertion (lines 153 to 162) enters both in the registries, puts the vehicle on the lane
  and advances the counters.
\<close>

definition construct_vehicle ::
  "World \<Rightarrow> lref \<Rightarrow> DriverType \<Rightarrow> real \<Rightarrow> rref option \<Rightarrow> (vref \<times> dref) \<times> World" where
  "construct_vehicle w l driver_type initial_position route =
     (let (r, w1) = new_Vehicle w (Vehicle_init (next_vehicle_id (model w)) l initial_position);
          (d, w2) = new_Driver w1 (create_driver (next_driver_id (model w1)) driver_type);
          w3 = set_vehicle w2 d r;
          w4 = (case route of Some rt \<Rightarrow> set_route w3 d rt | None \<Rightarrow> w3)
      in ((r, d), w4))"

definition insert_vehicle :: "World \<Rightarrow> lref \<Rightarrow> vref \<Rightarrow> dref \<Rightarrow> World" where
  "insert_vehicle w l r d =
     (let w1 = upd_model w
                 (\<lambda>m. m\<lparr>model_vehicles :=
                          AList.update (vehicle_id (vehicle_at w r)) r (model_vehicles m)\<rparr>);
          w2 = upd_model w1
                 (\<lambda>m. m\<lparr>drivers := AList.update (get_id (driver_at w1 d)) d (drivers m)\<rparr>);
          w3 = Lane_add_vehicle w2 l r;
          w4 = upd_model w3 (\<lambda>m. m\<lparr>next_vehicle_id := next_vehicle_id m + 1\<rparr>);
          w5 = upd_model w4 (\<lambda>m. m\<lparr>next_driver_id := next_driver_id m + 1\<rparr>);
          w6 = upd_model w5
                 (\<lambda>m. m\<lparr>stats := (stats m)\<lparr>total_vehicles := total_vehicles (stats m) + 1\<rparr>\<rparr>)
      in upd_model w6
           (\<lambda>m. m\<lparr>stats := (stats m)\<lparr>active_vehicles := active_vehicles (stats m) + 1\<rparr>\<rparr>))"

definition add_vehicle ::
  "World \<Rightarrow> int \<Rightarrow> DriverType \<Rightarrow> real \<Rightarrow> rref option \<Rightarrow> vref option \<times> World" where
  "add_vehicle w lid driver_type initial_position route =
     (case map_of (lanes (model w)) lid of
        None \<Rightarrow> (None, w)
      | Some l \<Rightarrow>
          (let ((r, d), w1) = construct_vehicle w l driver_type initial_position route
           in (Some r, insert_vehicle w1 l r d)))"

text \<open>\<^verbatim>\<open>remove_vehicle(vehicle_id)\<close>.\<close>

definition remove_vehicle :: "World \<Rightarrow> int \<Rightarrow> World" where
  "remove_vehicle w vid =
     (case map_of (model_vehicles (model w)) vid of
        None \<Rightarrow> w
      | Some r \<Rightarrow>
          (let w1 = Lane_remove_vehicle w (get_lane w r) r;
               w2 = (case driver (vehicle_at w1 r) of
                       None \<Rightarrow> w1
                     | Some d \<Rightarrow>
                         (let did = get_id (driver_at w1 d)
                          in if map_of (drivers (model w1)) did \<noteq> None
                             then upd_model w1 (\<lambda>m. m\<lparr>drivers := AList.delete did (drivers m)\<rparr>)
                             else w1));
               w3 = upd_model w2
                      (\<lambda>m. m\<lparr>model_vehicles := AList.delete vid (model_vehicles m)\<rparr>);
               w4 = upd_model w3
                      (\<lambda>m. m\<lparr>stats := (stats m)\<lparr>active_vehicles :=
                                                   active_vehicles (stats m) - 1\<rparr>\<rparr>)
           in if crashed (state (vehicle_at w4 r))
              then upd_model w4
                     (\<lambda>m. m\<lparr>stats := (stats m)\<lparr>crashed_vehicles :=
                                                  crashed_vehicles (stats m) + 1\<rparr>\<rparr>)
              else upd_model w4
                     (\<lambda>m. m\<lparr>stats := (stats m)\<lparr>completed_vehicles :=
                                                  completed_vehicles (stats m) + 1\<rparr>\<rparr>)))"

text \<open>\<^verbatim>\<open>remove_lane(lane_id)\<close>: the lane's vehicles are removed from the model first.\<close>

definition remove_lane :: "World \<Rightarrow> int \<Rightarrow> World" where
  "remove_lane w lid =
     (case map_of (lanes (model w)) lid of
        None \<Rightarrow> w
      | Some l \<Rightarrow>
          (let w1 = fold (\<lambda>r w'. remove_vehicle w' (vehicle_id (vehicle_at w' r)))
                      (vehicles (lane_at w l)) w
           in update_network (upd_model w1 (\<lambda>m. m\<lparr>lanes := AList.delete lid (lanes m)\<rparr>))))"

text \<open>\<^verbatim>\<open>_has_vehicle_exited(vehicle)\<close>.\<close>

definition has_vehicle_exited :: "World \<Rightarrow> vref \<Rightarrow> bool" where
  "has_vehicle_exited w r \<longleftrightarrow>
     get_x w r > lane_length (lane_at w (get_lane w r))
     \<and> downstream_lane (lane_at w (get_lane w r)) = None"

text \<open>\<^verbatim>\<open>_update_statistics\<close>.\<close>

definition update_statistics :: "World \<Rightarrow> World" where
  "update_statistics w =
     (let vs = map snd (model_vehicles (model w));
          ls = map snd (lanes (model w));
          w1 = upd_model w
                 (\<lambda>m. m\<lparr>stats := (stats m)\<lparr>active_vehicles := int (length vs)\<rparr>\<rparr>);
          w2 = upd_model w1
                 (\<lambda>m. m\<lparr>stats := (stats m)
                          \<lparr>average_speed :=
                             (if vs \<noteq> [] then sum_list (map (get_velocity w) vs) / real (length vs)
                              else 0)\<rparr>\<rparr>);
          total_flow' = sum_list (map (get_flow w) ls);
          total_density = sum_list (map (get_density w) ls);
          lane_count = length ls;
          w3 = upd_model w2 (\<lambda>m. m\<lparr>stats := (stats m)\<lparr>total_flow := total_flow'\<rparr>\<rparr>)
      in upd_model w3
           (\<lambda>m. m\<lparr>stats := (stats m)
                    \<lparr>average_density :=
                       (if lane_count > 0 then total_density / real lane_count else 0)\<rparr>\<rparr>))"

text \<open>
  The three loops of a tick. An exception in one driver is caught and printed: the loop
  goes on from the state that driver left. \<open>clock r\<close> is the wall-clock reading taken
  while vehicle \<open>r\<close> moves. The loop over the vehicles runs over a copy of the registry's
  values made before the first move.
\<close>

definition drive_all :: "World \<Rightarrow> dref list \<Rightarrow> World" where
  "drive_all w ds = fold (\<lambda>d w'. snd (drive w' d)) ds w"

definition move_and_check :: "(vref \<Rightarrow> real) \<Rightarrow> real \<Rightarrow> vref \<Rightarrow> World \<Rightarrow> World" where
  "move_and_check clock dt r w =
     (let w1 = Vehicle_move w r (clock r) dt
      in if has_vehicle_exited w1 r then remove_vehicle w1 (vehicle_id (vehicle_at w1 r))
         else w1)"

definition move_all :: "World \<Rightarrow> (vref \<Rightarrow> real) \<Rightarrow> real \<Rightarrow> vref list \<Rightarrow> World" where
  "move_all w clock dt rs = fold (move_and_check clock dt) rs w"

text \<open>
  \<^verbatim>\<open>_update_simulation(dt)\<close>: one tick. It starts by advancing the clock and copying it
  into the statistics (\<open>advance_clock\<close>).
\<close>

definition advance_clock :: "World \<Rightarrow> real \<Rightarrow> World" where
  "advance_clock w dt =
     (let w1 = upd_model w (\<lambda>m. m\<lparr>current_time := current_time m + dt\<rparr>)
      in upd_model w1
           (\<lambda>m. m\<lparr>stats := (stats m)\<lparr>stats_current_time := current_time m\<rparr>\<rparr>))"

definition update_simulation :: "World \<Rightarrow> (vref \<Rightarrow> real) \<Rightarrow> real \<Rightarrow> World" where
  "update_simulation w clock dt =
     (let w2 = advance_clock w dt;
          w3 = update_network w2;
          w4 = drive_all w3 (map snd (drivers (model w3)));
          w5 = move_all w4 clock dt (map snd (model_vehicles (model w4)))
      in update_statistics w5)"

text \<open>
  The state machine. \<^verbatim>\<open>start_simulation\<close> reads the wall clock (\<open>now\<close>) and creates the
  worker thread; \<^verbatim>\<open>stop_simulation\<close> also waits up to a second for the worker, which
  changes nothing in the model.
\<close>

definition start_simulation :: "World \<Rightarrow> real \<Rightarrow> World" where
  "start_simulation w now =
     (if sim_state (model w) = RUNNING then w
      else upd_model w
             (\<lambda>m. m\<lparr>sim_state := RUNNING, start_time := now, current_time := 0,
                     stop_simulation_flag := False, simulation_thread := Some WorkerThread\<rparr>))"

definition pause_simulation :: "World \<Rightarrow> World" where
  "pause_simulation w =
     (if sim_state (model w) = RUNNING then upd_model w (\<lambda>m. m\<lparr>sim_state := PAUSED\<rparr>) else w)"

definition resume_simulation :: "World \<Rightarrow> World" where
  "resume_simulation w =
     (if sim_state (model w) = PAUSED then upd_model w (\<lambda>m. m\<lparr>sim_state := RUNNING\<rparr>) else w)"

definition stop_simulation :: "World \<Rightarrow> World" where
  "stop_simulation w =
     upd_model w (\<lambda>m. m\<lparr>stop_simulation_flag := True, sim_state := STOPPED\<rparr>)"

definition step_simulation :: "World \<Rightarrow> (vref \<Rightarrow> real) \<Rightarrow> World" where
  "step_simulation w clock =
     (if sim_state (model w) \<in> {STOPPED, PAUSED}
      then upd_model (update_simulation w clock (time_step (settings (model w))))
             (\<lambda>m. m\<lparr>sim_state := PAUSED\<rparr>)
      else w)"

subsection \<open>Scenarios\<close>

text \<open>
  A store in which every lane reference \<open>l\<close> holds the lane \<^verbatim>\<open>Lane(l, NORMAL, 1000.0)\<close>, no
  vehicle or driver has been created yet, and the model is freshly constructed. What the
  unused vehicle, driver and route references hold is never read.
\<close>

definition empty_world :: World where
  "empty_world =
     \<lparr>vehicle_at = (\<lambda>r. Vehicle_init 0 0 0),
      lane_at = (\<lambda>l. Lane_init (int l) NORMAL_LANE 1000 []),
      driver_at = (\<lambda>d. ASimpleDriver (SimpleDriver_init 0 NORMAL)),
      route_at = (\<lambda>rt. Route_init 0 []),
      next_vref = 0, next_dref = 0, model = TrafficSimulationModel_init\<rparr>"

text \<open>
  A lane change, set up as the repository's test script does: lane 10 gets lane 11 as its
  left neighbour, \<^verbatim>\<open>Vehicle(1, lane10, 100.0)\<close> is created (reference 0) and added to
  lane 10. Then \<^verbatim>\<open>start_lane_change(LEFT)\<close> (\<open>lc_world1\<close>), and after it
  \<^verbatim>\<open>lane10.set_left_lane(lane12)\<close> (\<open>lc_world2\<close>).
\<close>

definition lc_world0 :: World where
  "lc_world0 =
     Lane_add_vehicle
       (snd (new_Vehicle (set_left_lane empty_world 10 (Some 11)) (Vehicle_init 1 10 100))) 10 0"

definition lc_world1 :: World where
  "lc_world1 = snd (start_lane_change lc_world0 0 LEFT 3)"

definition lc_world2 :: World where
  "lc_world2 = set_left_lane lc_world1 10 (Some 12)"

text \<open>
  One vehicle passing another on lane 10. Three vehicles are created at 100 m, 50 m and
  130 m (references 0, 1, 2) and added to the lane, which sorts them: \<open>[1, 0, 2]\<close>. Then
  vehicle 1 is given 60 m/s by \<^verbatim>\<open>set_velocity\<close> and moved for one second, to 110 m.
\<close>

definition passed_world0 :: World where
  "passed_world0 =
     Lane_add_vehicle (snd (new_Vehicle empty_world (Vehicle_init 1 10 100))) 10 0"

definition passed_world1 :: World where
  "passed_world1 =
     Lane_add_vehicle (snd (new_Vehicle passed_world0 (Vehicle_init 2 10 50))) 10 1"

definition passed_world2 :: World where
  "passed_world2 =
     Lane_add_vehicle (snd (new_Vehicle passed_world1 (Vehicle_init 3 10 130))) 10 2"

definition passed_world :: World where
  "passed_world = Vehicle_move (set_velocity passed_world2 1 60) 1 0 1"

text \<open>
  The vehicle of \<open>lc_world0\<close> at 2 m/s with an acceleration of -3 m/s/s: one second of
  movement would take the velocity below zero.
\<close>

definition braking_world :: World where
  "braking_world = set_acceleration (set_velocity lc_world0 0 2) 0 (- 3)"

text \<open>The part of the model that removing a vehicle and refreshing the statistics never change.\<close>

definition model_fixed :: "TrafficSimulationModel \<Rightarrow> TrafficSimulationModel" where
  "model_fixed m = m\<lparr>model_vehicles := [], drivers := [], stats := SimulationStats_init\<rparr>"

text \<open>
  A model with two vehicles, built through its interface: \<^verbatim>\<open>add_lane(Lane(10))\<close>, then
  \<^verbatim>\<open>add_vehicle(10, IDM, 0.0)\<close> (vehicle reference 0, id 1) and
  \<^verbatim>\<open>add_vehicle(10, IDM, 5.5)\<close> (vehicle reference 1, id 2). \<open>running_world\<close> is that
  model after \<^verbatim>\<open>start_simulation()\<close>.
\<close>

definition two_car0 :: World where
  "two_car0 = add_lane empty_world 10"

definition two_car1 :: World where
  "two_car1 = snd (add_vehicle two_car0 10 IDM 0 None)"

definition two_car2 :: World where
  "two_car2 = snd (add_vehicle two_car1 10 IDM 5.5 None)"

definition running_world :: World where
  "running_world = start_simulation two_car2 0"

text \<open>
  The acceleration the specification prescribes for a vehicle at velocity \<open>v\<close> behind a
  leader at net gap \<open>g\<close> and velocity difference \<open>dv\<close>, written from the specification's
  formula (not from the source): \<open>a_max (1 - (v/v0)^4 - (desired_gap/g)^2)\<close>, floored at
  \<open>-b\<close>, with \<open>desired_gap = s0 + v T + v dv / (2 sqrt (a_max b))\<close>.
\<close>

definition spec_idm_acceleration :: "IDMDriver \<Rightarrow> real \<Rightarrow> real \<Rightarrow> real \<Rightarrow> real" where
  "spec_idm_acceleration drv v dv g =
     (let desired_gap = min_spacing drv + v * time_headway drv
                        + v * dv / (2 * sqrt (max_acceleration drv * comfortable_deceleration drv))
      in max (max_acceleration drv * (1 - (v / desired_speed drv) ^ 4 - (desired_gap / g)\<^sup>2))
             (- comfortable_deceleration drv))"

text \<open>The two-vehicle model after the neighbour caches have been refreshed.\<close>

definition two_car3 :: World where
  "two_car3 = update_network two_car2"

text \<open>
  The two-vehicle model with the rear vehicle given 66.66 m/s (twice the desired speed) by
  \<^verbatim>\<open>set_velocity\<close>, and a wall clock that always reads 0.
\<close>

definition fast_world :: World where
  "fast_world = set_velocity two_car2 0 66.66"

definition zero_clock :: "vref \<Rightarrow> real" where
  "zero_clock r = 0"

text \<open>
  The vehicle registry as \<^verbatim>\<open>add_vehicle\<close> fills it: a dictionary (no key twice) that holds
  each vehicle under the vehicle's own id.
\<close>

definition registry_consistent :: "World \<Rightarrow> bool" where
  "registry_consistent w \<longleftrightarrow>
     distinct (map fst (model_vehicles (model w)))
     \<and> (\<forall>(k, r) \<in> set (model_vehicles (model w)). vehicle_id (vehicle_at w r) = k)"

subsection \<open>Properties of Route\<close>

lemma advance_route_index_mono: "current_index r \<le> current_index (advance_route r)"
  by (simp add: advance_route_def)

lemma advance_route_sequence [simp]: "lane_sequence (advance_route r) = lane_sequence r"
  by (simp add: advance_route_def)

lemma route_step_index_mono: "current_index r \<le> current_index (route_step r c)"
  by (cases c) (simp_all add: advance_route_index_mono)

lemma route_run_index_mono: "current_index r \<le> current_index (route_run r cs)"
  unfolding route_run_def
proof (induction cs arbitrary: r)
  case Nil
  show ?case by simp
next
  case (Cons c cs)
  have "current_index r \<le> current_index (route_step r c)"
    by (rule route_step_index_mono)
  also have "\<dots> \<le> current_index (foldl route_step (route_step r c) cs)"
    by (rule Cons.IH)
  finally show ?case by simp
qed

lemma advance_route_below_end:
  "current_index r < int (length (lane_sequence r)) \<Longrightarrow>
   current_index (advance_route r) < int (length (lane_sequence (advance_route r)))"
  by (simp add: advance_route_def)

lemma advance_route_iter_sequence [simp]:
  "lane_sequence ((advance_route ^^ n) r) = lane_sequence r"
  by (induction n) simp_all

lemma advance_route_iter_below_end:
  "current_index r < int (length (lane_sequence r)) \<Longrightarrow>
   current_index ((advance_route ^^ n) r) < int (length (lane_sequence r))"
proof (induction n)
  case 0
  then show ?case by simp
next
  case (Suc n)
  then have "current_index ((advance_route ^^ n) r)
      < int (length (lane_sequence ((advance_route ^^ n) r)))"
    by simp
  from advance_route_below_end [OF this] show ?case by simp
qed

text \<open>
  C6. A fresh route over the one-lane sequence \<^verbatim>\<open>[7]\<close>: however many times
  \<^verbatim>\<open>advance_route\<close> is called, the cursor stays below the length of the sequence and
  \<^verbatim>\<open>is_route_complete\<close> answers False. The bound \<^verbatim>\<open>len - 1\<close> in \<^verbatim>\<open>advance_route\<close>
  stops the cursor one short of the value \<^verbatim>\<open>is_route_complete\<close> tests for.
\<close>

theorem route_never_completes:
  "\<not> is_route_complete ((advance_route ^^ n) (Route_init 1 [7]))"
proof -
  have "current_index (Route_init 1 [7]) < int (length (lane_sequence (Route_init 1 [7])))"
    by (simp add: Route_init_def)
  from advance_route_iter_below_end [OF this, of n]
  show ?thesis by (simp add: is_route_complete_def Route_init_def)
qed

subsection \<open>The store\<close>

lemma upd_vehicle_sel [simp]:
  "vehicle_at (upd_vehicle w r f) = (vehicle_at w)(r := f (vehicle_at w r))"
  "lane_at (upd_vehicle w r f) = lane_at w"
  "driver_at (upd_vehicle w r f) = driver_at w"
  "route_at (upd_vehicle w r f) = route_at w"
  "next_vref (upd_vehicle w r f) = next_vref w"
  "next_dref (upd_vehicle w r f) = next_dref w"
  "model (upd_vehicle w r f) = model w"
  by (simp_all add: upd_vehicle_def)

lemma upd_state_sel [simp]:
  "vehicle_at (upd_state w r g) = (vehicle_at w)(r := (vehicle_at w r)\<lparr>state := g (state (vehicle_at w r))\<rparr>)"
  "lane_at (upd_state w r g) = lane_at w"
  "driver_at (upd_state w r g) = driver_at w"
  "route_at (upd_state w r g) = route_at w"
  "next_vref (upd_state w r g) = next_vref w"
  "next_dref (upd_state w r g) = next_dref w"
  "model (upd_state w r g) = model w"
  by (simp_all add: upd_state_def)

lemma upd_lane_sel [simp]:
  "vehicle_at (upd_lane w l f) = vehicle_at w"
  "lane_at (upd_lane w l f) = (lane_at w)(l := f (lane_at w l))"
  "driver_at (upd_lane w l f) = driver_at w"
  "route_at (upd_lane w l f) = route_at w"
  "next_vref (upd_lane w l f) = next_vref w"
  "next_dref (upd_lane w l f) = next_dref w"
  "model (upd_lane w l f) = model w"
  by (simp_all add: upd_lane_def)

lemma upd_model_sel [simp]:
  "vehicle_at (upd_model w f) = vehicle_at w"
  "lane_at (upd_model w f) = lane_at w"
  "driver_at (upd_model w f) = driver_at w"
  "route_at (upd_model w f) = route_at w"
  "next_vref (upd_model w f) = next_vref w"
  "next_dref (upd_model w f) = next_dref w"
  "model (upd_model w f) = f (model w)"
  by (simp_all add: upd_model_def)

lemma lane_static_sel [simp]:
  "lane_length (lane_static la) = lane_length la"
  "downstream_lane (lane_static la) = downstream_lane la"
  "upstream_lane (lane_static la) = upstream_lane la"
  "left_lane (lane_static la) = left_lane la"
  "right_lane (lane_static la) = right_lane la"
  "lane_id (lane_static la) = lane_id la"
  by (simp_all add: lane_static_def)

lemma lane_static_vehicles [simp]: "lane_static (la\<lparr>vehicles := vs\<rparr>) = lane_static la"
  by (simp add: lane_static_def)

text \<open>What adding and removing a vehicle leaves alone.\<close>

lemma Lane_add_vehicle_model [simp]: "model (Lane_add_vehicle w l r) = model w"
  by (simp add: Lane_add_vehicle_def Let_def)

lemma Lane_add_vehicle_static [simp]:
  "lane_static (lane_at (Lane_add_vehicle w l r) l') = lane_static (lane_at w l')"
  by (simp add: Lane_add_vehicle_def Let_def)

lemma Lane_add_vehicle_other [simp]:
  "r' \<noteq> r \<Longrightarrow> vehicle_at (Lane_add_vehicle w l r) r' = vehicle_at w r'"
  by (simp add: Lane_add_vehicle_def Let_def)

lemma Lane_add_vehicle_self:
  "vehicle_at (Lane_add_vehicle w l r) r = vehicle_at w r \<or>
   vehicle_at (Lane_add_vehicle w l r) r = (vehicle_at w r)\<lparr>lane := l\<rparr>"
  by (simp add: Lane_add_vehicle_def Let_def)

lemma Lane_remove_vehicle_model [simp]: "model (Lane_remove_vehicle w l r) = model w"
  by (simp add: Lane_remove_vehicle_def)

lemma Lane_remove_vehicle_vehicle_at [simp]:
  "vehicle_at (Lane_remove_vehicle w l r) = vehicle_at w"
  by (simp add: Lane_remove_vehicle_def)

lemma Lane_remove_vehicle_static [simp]:
  "lane_static (lane_at (Lane_remove_vehicle w l r) l') = lane_static (lane_at w l')"
  by (simp add: Lane_remove_vehicle_def)

text \<open>What completing a lane change leaves alone.\<close>

lemma end_lane_change_model [simp]: "model (end_lane_change w r) = model w"
  by (simp add: end_lane_change_def Let_def split: option.splits)

lemma end_lane_change_static [simp]:
  "lane_static (lane_at (end_lane_change w r) l') = lane_static (lane_at w l')"
  by (simp add: end_lane_change_def Let_def split: option.splits)

lemma end_lane_change_other [simp]:
  "r' \<noteq> r \<Longrightarrow> vehicle_at (end_lane_change w r) r' = vehicle_at w r'"
  by (simp add: end_lane_change_def Let_def split: option.splits)

text \<open>What a move leaves alone.\<close>

lemma store_acceleration_sel [simp]:
  "model (store_acceleration w r now) = model w"
  "lane_at (store_acceleration w r now) = lane_at w"
  "r' \<noteq> r \<Longrightarrow> vehicle_at (store_acceleration w r now) r' = vehicle_at w r'"
  by (simp_all add: store_acceleration_def)

lemma lateral_movement_model [simp]: "model (lateral_movement w r dt) = model w"
  by (simp add: lateral_movement_def Let_def)

lemma lateral_movement_static [simp]:
  "lane_static (lane_at (lateral_movement w r dt) l') = lane_static (lane_at w l')"
  by (simp add: lateral_movement_def Let_def)

lemma lateral_movement_other [simp]:
  "r' \<noteq> r \<Longrightarrow> vehicle_at (lateral_movement w r dt) r' = vehicle_at w r'"
  by (simp add: lateral_movement_def Let_def)

lemma longitudinal_movement_sel [simp]:
  "model (longitudinal_movement w r dt) = model w"
  "lane_at (longitudinal_movement w r dt) = lane_at w"
  "r' \<noteq> r \<Longrightarrow> vehicle_at (longitudinal_movement w r dt) r' = vehicle_at w r'"
  by (simp_all add: longitudinal_movement_def Let_def)

lemma Vehicle_move_crashed: "crashed (state (vehicle_at w r)) \<Longrightarrow> Vehicle_move w r now dt = w"
  by (simp add: Vehicle_move_def)

lemma Vehicle_move_model [simp]: "model (Vehicle_move w r now dt) = model w"
  by (simp add: Vehicle_move_def)

lemma Vehicle_move_static [simp]:
  "lane_static (lane_at (Vehicle_move w r now dt) l') = lane_static (lane_at w l')"
  by (simp add: Vehicle_move_def)

lemma Vehicle_move_other [simp]:
  "r' \<noteq> r \<Longrightarrow> vehicle_at (Vehicle_move w r now dt) r' = vehicle_at w r'"
  by (simp add: Vehicle_move_def)

subsection \<open>The effect of a move on the vehicle itself\<close>

lemma Lane_add_vehicle_self_eq:
  "vehicle_at (Lane_add_vehicle w l r) r =
     (if r \<notin> set (vehicles (lane_at w l)) then (vehicle_at w r)\<lparr>lane := l\<rparr> else vehicle_at w r)"
  by (simp add: Lane_add_vehicle_def Let_def)

lemma end_lane_change_self:
  "is_changing_lane w r \<Longrightarrow>
   vehicle_at (end_lane_change w r) r =
     (vehicle_at w r)\<lparr>lane := (case target_lane_of w r of Some t \<Rightarrow> t | None \<Rightarrow> lane (vehicle_at w r)),
                      state := (state (vehicle_at w r))\<lparr>lane_change_progress := 0\<rparr>,
                      lc_direction := None, dy := 0\<rparr>"
  by (simp add: end_lane_change_def Let_def Lane_add_vehicle_self_eq split: option.splits)

lemma target_lane_of_upd_state [simp]:
  "target_lane_of (upd_state w r g) r' = target_lane_of w r'"
  by (cases "r' = r") (simp_all add: target_lane_of_def split: option.splits LatDirection.splits)

lemma lateral_movement_self:
  "vehicle_at (lateral_movement w r dt) r =
     (let v = vehicle_at w r; p = lane_change_progress (state v) + dy v * dt
      in if dy v = 0 then v
         else if p \<ge> 1
         then v\<lparr>lane := (case target_lane_of w r of Some t \<Rightarrow> t | None \<Rightarrow> lane v),
                state := (state v)\<lparr>lane_change_progress := 0\<rparr>,
                lc_direction := None, dy := 0\<rparr>
         else v\<lparr>state := (state v)\<lparr>lane_change_progress := p\<rparr>\<rparr>)"
  by (simp add: lateral_movement_def Let_def end_lane_change_self is_changing_lane_def
        split: option.splits)

lemma longitudinal_movement_self:
  "vehicle_at (longitudinal_movement w r dt) r =
     (let v = vehicle_at w r; s = state v
      in v\<lparr>state := s\<lparr>velocity := max 0 (velocity s + dt * acceleration s),
                       state_x := state_x s + max 0 (dt * velocity s + 0.5 * acceleration s * dt * dt),
                       state_y := state_y s + (if lane_change_progress s > 0 then dy v * dt else 0)\<rparr>\<rparr>)"
  by (simp add: longitudinal_movement_def Let_def is_changing_lane_def)

subsection \<open>The lane lists after a completed lane change\<close>

lemma Lane_remove_vehicle_vehicles:
  "vehicles (lane_at (Lane_remove_vehicle w l r) l') =
     (if l' = l then remove1 r (vehicles (lane_at w l)) else vehicles (lane_at w l'))"
  by (simp add: Lane_remove_vehicle_def remove1_idem)

lemma Lane_add_vehicle_vehicles:
  "vehicles (lane_at (Lane_add_vehicle w l r) l') =
     (if l' = l \<and> r \<notin> set (vehicles (lane_at w l))
      then sort_key (get_x w) (vehicles (lane_at w l) @ [r])
      else vehicles (lane_at w l'))"
  by (simp add: Lane_add_vehicle_def Let_def)

lemma end_lane_change_vehicles:
  assumes "is_changing_lane w r" and "target_lane_of w r = Some t"
  shows "vehicles (lane_at (end_lane_change w r) l') =
     vehicles (lane_at (Lane_add_vehicle
        (upd_vehicle (Lane_remove_vehicle w (lane (vehicle_at w r)) r) r (\<lambda>v. v\<lparr>lane := t\<rparr>)) t r) l')"
  using assms by (simp add: end_lane_change_def Let_def)

lemma distinct_count_list_one: "distinct xs \<Longrightarrow> x \<in> set xs \<Longrightarrow> count_list xs x = 1"
  by (induction xs) auto

lemma end_lane_change_target_list:
  assumes ch: "is_changing_lane w r" and tg: "target_lane_of w r = Some t"
    and d1: "distinct (vehicles (lane_at w (lane (vehicle_at w r))))"
    and d2: "distinct (vehicles (lane_at w t))"
  shows "r \<in> set (vehicles (lane_at (end_lane_change w r) t))"
    and "distinct (vehicles (lane_at (end_lane_change w r) t))"
    and "lane (vehicle_at w r) \<noteq> t \<Longrightarrow>
         r \<notin> set (vehicles (lane_at (end_lane_change w r) (lane (vehicle_at w r))))"
  using d1 d2
  by (auto simp: end_lane_change_vehicles [OF ch tg] Lane_add_vehicle_vehicles
        Lane_remove_vehicle_vehicles)

lemma lateral_movement_vehicles:
  assumes "dy (vehicle_at w r) \<noteq> 0"
    and "lane_change_progress (state (vehicle_at w r)) + dy (vehicle_at w r) * dt \<ge> 1"
  shows "lane_at (lateral_movement w r dt) =
         lane_at (end_lane_change (upd_state w r
            (\<lambda>s. s\<lparr>lane_change_progress := lane_change_progress s + dy (vehicle_at w r) * dt\<rparr>)) r)"
  using assms by (simp add: lateral_movement_def Let_def)

subsection \<open>Nearest vehicles on a lane\<close>

lemma py_min_key_mem: "py_min_key f b cs \<in> set (b # cs)"
  by (induction cs arbitrary: b) auto

lemma py_min_key_le: "\<forall>c \<in> set (b # cs). f (py_min_key f b cs) \<le> f c"
proof (induction cs arbitrary: b)
  case Nil then show ?case by simp
next
  case (Cons a cs)
  show ?case
  proof (cases "f a < f b")
    case True
    with Cons.IH[of a] show ?thesis by auto
  next
    case False
    with Cons.IH[of b] show ?thesis by auto
  qed
qed

lemma py_max_key_mem: "py_max_key f b cs \<in> set (b # cs)"
  by (induction cs arbitrary: b) auto

lemma py_max_key_ge: "\<forall>c \<in> set (b # cs). f c \<le> f (py_max_key f b cs)"
proof (induction cs arbitrary: b)
  case Nil then show ?case by simp
next
  case (Cons a cs)
  show ?case
  proof (cases "f a > f b")
    case True
    with Cons.IH[of a] show ?thesis by auto
  next
    case False
    with Cons.IH[of b] show ?thesis by auto
  qed
qed

lemma leading_None: "get_leading_vehicle w l pos = None \<longleftrightarrow> (\<forall>v \<in> set (vehicles (lane_at w l)). \<not> get_x w v > pos)"
proof -
  have "get_leading_vehicle w l pos = None \<longleftrightarrow> filter (\<lambda>v. get_x w v > pos) (vehicles (lane_at w l)) = []"
    by (simp add: get_leading_vehicle_def split: list.splits)
  then show ?thesis by (simp add: filter_empty_conv)
qed

lemma leading_Some:
  assumes "get_leading_vehicle w l pos = Some r"
  shows "r \<in> set (vehicles (lane_at w l)) \<and> get_x w r > pos \<and>
     (\<forall>v \<in> set (vehicles (lane_at w l)). get_x w v > pos \<longrightarrow> get_x w r \<le> get_x w v)"
proof -
  obtain c cs where f: "filter (\<lambda>v. get_x w v > pos) (vehicles (lane_at w l)) = c # cs"
    and r: "r = py_min_key (get_x w) c cs"
    using assms by (auto simp: get_leading_vehicle_def split: list.splits)
  have "r \<in> set (c # cs)" unfolding r by (rule py_min_key_mem)
  then have m: "r \<in> set (filter (\<lambda>v. get_x w v > pos) (vehicles (lane_at w l)))" using f by simp
  have "\<And>v. v \<in> set (vehicles (lane_at w l)) \<Longrightarrow> get_x w v > pos \<Longrightarrow> get_x w r \<le> get_x w v"
  proof -
    fix v assume "v \<in> set (vehicles (lane_at w l))" "get_x w v > pos"
    then have "v \<in> set (c # cs)" using f [symmetric] by simp
    then show "get_x w r \<le> get_x w v"
      unfolding r using py_min_key_le [where f = "get_x w" and b = c and cs = cs] by blast
  qed
  with m show ?thesis by auto
qed

lemma following_None:
  "get_following_vehicle w l pos = None \<longleftrightarrow>
   (\<forall>v \<in> set (vehicles (lane_at w l)). \<not> get_x w v < pos)"
proof -
  have "get_following_vehicle w l pos = None \<longleftrightarrow>
        filter (\<lambda>v. get_x w v < pos) (vehicles (lane_at w l)) = []"
    by (simp add: get_following_vehicle_def split: list.splits)
  then show ?thesis by (simp add: filter_empty_conv)
qed

lemma following_Some:
  assumes "get_following_vehicle w l pos = Some r"
  shows "r \<in> set (vehicles (lane_at w l)) \<and> get_x w r < pos \<and>
     (\<forall>v \<in> set (vehicles (lane_at w l)). get_x w v < pos \<longrightarrow> get_x w v \<le> get_x w r)"
proof -
  obtain c cs where f: "filter (\<lambda>v. get_x w v < pos) (vehicles (lane_at w l)) = c # cs"
    and r: "r = py_max_key (get_x w) c cs"
    using assms by (auto simp: get_following_vehicle_def split: list.splits)
  have "r \<in> set (c # cs)" unfolding r by (rule py_max_key_mem)
  then have m: "r \<in> set (filter (\<lambda>v. get_x w v < pos) (vehicles (lane_at w l)))"
    using f by simp
  have "\<And>v. v \<in> set (vehicles (lane_at w l)) \<Longrightarrow> get_x w v < pos \<Longrightarrow> get_x w v \<le> get_x w r"
  proof -
    fix v assume "v \<in> set (vehicles (lane_at w l))" "get_x w v < pos"
    then have "v \<in> set (c # cs)" using f [symmetric] by simp
    then show "get_x w v \<le> get_x w r"
      unfolding r using py_max_key_ge [where f = "get_x w" and b = c and cs = cs] by blast
  qed
  with m show ?thesis by auto
qed

text \<open>
  C9. On any lane, with the vehicle list in any order, \<^verbatim>\<open>get_leading_vehicle(pos)\<close> is
  \<^verbatim>\<open>None\<close> exactly when no vehicle of the lane is strictly ahead of \<open>pos\<close>, and otherwise
  a vehicle of the lane strictly ahead of \<open>pos\<close> whose position is the smallest among those
  ahead; \<^verbatim>\<open>get_following_vehicle(pos)\<close> is \<^verbatim>\<open>None\<close> exactly when no vehicle is strictly
  behind \<open>pos\<close>, and otherwise a vehicle strictly behind whose position is the largest
  among those behind. Nothing is assumed about the order of the list.
\<close>

theorem nearest_vehicle_queries:
  "(get_leading_vehicle w l pos = None \<longleftrightarrow>
      (\<forall>v \<in> set (vehicles (lane_at w l)). \<not> pos < get_x w v))
   \<and> (\<forall>r. get_leading_vehicle w l pos = Some r \<longrightarrow>
         r \<in> set (vehicles (lane_at w l)) \<and> pos < get_x w r
         \<and> (\<forall>v \<in> set (vehicles (lane_at w l)). pos < get_x w v \<longrightarrow> get_x w r \<le> get_x w v))
   \<and> (get_following_vehicle w l pos = None \<longleftrightarrow>
         (\<forall>v \<in> set (vehicles (lane_at w l)). \<not> get_x w v < pos))
   \<and> (\<forall>r. get_following_vehicle w l pos = Some r \<longrightarrow>
         r \<in> set (vehicles (lane_at w l)) \<and> get_x w r < pos
         \<and> (\<forall>v \<in> set (vehicles (lane_at w l)). get_x w v < pos \<longrightarrow> get_x w v \<le> get_x w r))"
  using leading_None [of w l pos] leading_Some [of w l pos]
    following_None [of w l pos] following_Some [of w l pos]
  by blast


lemma new_Vehicle_sel [simp]:
  "vehicle_at (snd (new_Vehicle w v)) = (vehicle_at w)(next_vref w := v)"
  "lane_at (snd (new_Vehicle w v)) = lane_at w"
  "driver_at (snd (new_Vehicle w v)) = driver_at w"
  "next_vref (snd (new_Vehicle w v)) = Suc (next_vref w)"
  "next_dref (snd (new_Vehicle w v)) = next_dref w"
  "model (snd (new_Vehicle w v)) = model w"
  "fst (new_Vehicle w v) = next_vref w"
  by (simp_all add: new_Vehicle_def)

lemma Lane_add_vehicle_next [simp]:
  "next_vref (Lane_add_vehicle w l r) = next_vref w"
  "next_dref (Lane_add_vehicle w l r) = next_dref w"
  "driver_at (Lane_add_vehicle w l r) = driver_at w"
  by (simp_all add: Lane_add_vehicle_def Let_def)

lemma empty_world_sel:
  "vehicles (lane_at empty_world l) = []"
  "next_vref empty_world = 0"
  "next_dref empty_world = 0"
  "model empty_world = TrafficSimulationModel_init"
  by (simp_all add: empty_world_def Lane_init_def)

lemma passed_world0_facts:
  "vehicles (lane_at passed_world0 10) = [0]"
  "vehicle_at passed_world0 0 = Vehicle_init 1 10 100"
  "next_vref passed_world0 = 1"
  by (simp_all add: passed_world0_def Lane_add_vehicle_vehicles Lane_add_vehicle_self_eq
        empty_world_sel Vehicle_init_def)

lemma passed_world1_facts:
  "vehicles (lane_at passed_world1 10) = [1, 0]"
  "vehicle_at passed_world1 0 = Vehicle_init 1 10 100"
  "vehicle_at passed_world1 (Suc 0) = Vehicle_init 2 10 50"
  "next_vref passed_world1 = 2"
  by (simp_all add: passed_world1_def Lane_add_vehicle_vehicles Lane_add_vehicle_self_eq
        passed_world0_facts Vehicle_init_def get_x_def)


lemma passed_world2_facts:
  "vehicles (lane_at passed_world2 10) = [1, 0, 2]"
  "vehicle_at passed_world2 0 = Vehicle_init 1 10 100"
  "vehicle_at passed_world2 (Suc 0) = Vehicle_init 2 10 50"
  "vehicle_at passed_world2 2 = Vehicle_init 3 10 130"
  by (simp_all add: passed_world2_def Lane_add_vehicle_vehicles Lane_add_vehicle_self_eq
        passed_world1_facts Vehicle_init_def get_x_def)

lemma set_velocity_sel [simp]:
  "lane_at (set_velocity w r v) = lane_at w"
  "vehicle_at (set_velocity w r v) =
     (vehicle_at w)(r := (vehicle_at w r)\<lparr>state := (state (vehicle_at w r))\<lparr>velocity := max 0 v\<rparr>\<rparr>)"
  by (simp_all add: set_velocity_def)

lemma Vehicle_move_self:
  "\<not> crashed (state (vehicle_at w r)) \<Longrightarrow> dy (vehicle_at w r) = 0 \<Longrightarrow>
   vehicle_at (Vehicle_move w r now dt) r =
     (vehicle_at w r)
       \<lparr>state := (state (vehicle_at w r))
          \<lparr>velocity := max 0 (velocity (state (vehicle_at w r))
                              + dt * acceleration (state (vehicle_at w r))),
           state_x := state_x (state (vehicle_at w r))
                      + max 0 (dt * velocity (state (vehicle_at w r))
                               + 0.5 * acceleration (state (vehicle_at w r)) * dt * dt),
           state_y := state_y (state (vehicle_at w r))
                      + (if lane_change_progress (state (vehicle_at w r)) > 0
                         then dy (vehicle_at w r) * dt else 0)\<rparr>,
        accelerations := (accelerations (vehicle_at w r))
                           (now \<mapsto> acceleration (state (vehicle_at w r)))\<rparr>"
  by (simp add: Vehicle_move_def longitudinal_movement_self lateral_movement_self
        store_acceleration_def Let_def)

lemma Vehicle_move_still_lanes:
  "dy (vehicle_at w r) = 0 \<Longrightarrow> lane_at (Vehicle_move w r now dt) = lane_at w"
  by (simp add: Vehicle_move_def lateral_movement_def store_acceleration_def)


lemma pw_a: "vehicles (lane_at passed_world 10) = [1, 0, 2]"
  by (simp add: passed_world_def Vehicle_move_still_lanes passed_world2_facts Vehicle_init_def)

lemma pw_b: "vehicle_at (set_velocity passed_world2 (Suc 0) 60) (Suc 0) =
   (Vehicle_init 2 10 50)\<lparr>state := (state (Vehicle_init 2 10 50))\<lparr>velocity := 60\<rparr>\<rparr>"
  by (simp add: passed_world2_facts)


lemma pw_c: "get_x passed_world 0 = 100"
  by (simp add: passed_world_def get_x_def passed_world2_facts Vehicle_init_def)

lemma pw_d: "vehicle_at passed_world (Suc 0) =
   (Vehicle_init 2 10 50)\<lparr>state := (state (Vehicle_init 2 10 50))\<lparr>velocity := 60, state_x := 110\<rparr>,
      accelerations := [0 \<mapsto> 0]\<rparr>"
proof -
  have a: "\<not> crashed (state (vehicle_at (set_velocity passed_world2 (Suc 0) 60) (Suc 0)))"
    by (simp add: passed_world2_facts Vehicle_init_def)
  have b: "dy (vehicle_at (set_velocity passed_world2 (Suc 0) 60) (Suc 0)) = 0"
    by (simp add: passed_world2_facts Vehicle_init_def)
  have "vehicle_at passed_world (Suc 0) =
     vehicle_at (Vehicle_move (set_velocity passed_world2 (Suc 0) 60) (Suc 0) 0 1) (Suc 0)"
    by (simp add: passed_world_def)
  also note Vehicle_move_self [OF a b, of 0 1]
  finally show ?thesis
    by (simp add: passed_world2_facts Vehicle_init_def)
qed


lemma pw_e: "get_x passed_world 2 = 130"
  by (simp add: passed_world_def get_x_def passed_world2_facts Vehicle_init_def)

lemma pw_f: "get_x passed_world (Suc 0) = 110"
  by (simp add: get_x_def pw_d)

text \<open>The queries on the lane whose list is out of order after the pass.\<close>

lemma pw_leading: "get_leading_vehicle passed_world 10 105 = Some 1"
  by (simp add: pw_a pw_c pw_e pw_f get_leading_vehicle_def)

lemma pw_following: "get_following_vehicle passed_world 10 120 = Some 1"
  by (simp add: pw_a pw_c pw_e pw_f get_following_vehicle_def)

lemma pw_unsorted: "\<not> sorted (map (get_x passed_world) (vehicles (lane_at passed_world 10)))"
  by (simp add: pw_a pw_c pw_e pw_f)

theorem nearest_vehicle_queries_witness:
  "\<not> sorted (map (get_x passed_world) (vehicles (lane_at passed_world 10)))
   \<and> get_leading_vehicle passed_world 10 105 = Some 1
   \<and> get_x passed_world 1 \<le> get_x passed_world 2
   \<and> get_following_vehicle passed_world 10 120 = Some 1
   \<and> get_x passed_world 0 \<le> get_x passed_world 1"
proof -
  have m: "2 \<in> set (vehicles (lane_at passed_world 10))" "0 \<in> set (vehicles (lane_at passed_world 10))"
    by (simp_all add: pw_a)
  have x: "105 < get_x passed_world 2" "get_x passed_world 0 < 120"
    by (simp_all add: pw_c pw_e)
  from nearest_vehicle_queries [of passed_world 10 105] pw_leading m(1) x(1)
  have a: "get_x passed_world 1 \<le> get_x passed_world 2" by blast
  from nearest_vehicle_queries [of passed_world 10 120] pw_following m(2) x(2)
  have b: "get_x passed_world 0 \<le> get_x passed_world 1" by blast
  from a b pw_unsorted pw_leading pw_following show ?thesis by blast
qed

subsection \<open>Velocity, position and crashed vehicles\<close>

lemma store_acceleration_self:
  "vehicle_at (store_acceleration w r now) r =
     (vehicle_at w r)\<lparr>accelerations :=
        (accelerations (vehicle_at w r))(now \<mapsto> acceleration (state (vehicle_at w r)))\<rparr>"
  by (simp add: store_acceleration_def)

lemma target_lane_of_store_acceleration [simp]:
  "target_lane_of (store_acceleration w r now) r' = target_lane_of w r'"
  by (cases "r' = r")
     (simp_all add: target_lane_of_def store_acceleration_def split: option.splits LatDirection.splits)

lemma Vehicle_move_velocity:
  "\<not> crashed (state (vehicle_at w r)) \<Longrightarrow>
   velocity (state (vehicle_at (Vehicle_move w r now dt) r)) =
     max 0 (velocity (state (vehicle_at w r)) + dt * acceleration (state (vehicle_at w r)))"
  by (simp add: Vehicle_move_def longitudinal_movement_self lateral_movement_self
        store_acceleration_self Let_def)

lemma Vehicle_move_x:
  "\<not> crashed (state (vehicle_at w r)) \<Longrightarrow>
   state_x (state (vehicle_at (Vehicle_move w r now dt) r)) =
     state_x (state (vehicle_at w r))
     + max 0 (dt * velocity (state (vehicle_at w r))
              + 0.5 * acceleration (state (vehicle_at w r)) * dt * dt)"
  by (simp add: Vehicle_move_def longitudinal_movement_self lateral_movement_self
        store_acceleration_self Let_def)

lemma crash_state:
  "state (vehicle_at (crash w r) r) =
     (state (vehicle_at w r))\<lparr>crashed := True, velocity := 0, acceleration := 0\<rparr>"
  by (simp add: crash_def)

lemma moves_after_crash:
  "crashed (state (vehicle_at w r)) \<Longrightarrow>
   fold (\<lambda>(now', dt') w'. Vehicle_move w' r now' dt') ms w = w"
  by (induction ms) (auto simp: Vehicle_move_crashed)

text \<open>
  C5. For a vehicle that is not crashed, or is crashed with a velocity that is not
  negative (a crash sets it to zero), and for every \<open>dt\<close>: after \<^verbatim>\<open>move(dt)\<close> the velocity
  is at least 0 and the position \<open>x\<close> is not smaller than before. After \<^verbatim>\<open>crash()\<close> the
  vehicle is crashed with velocity 0 and acceleration 0, and any sequence of later
  \<^verbatim>\<open>move\<close> calls leaves the whole state as \<^verbatim>\<open>crash()\<close> left it.
\<close>

theorem move_keeps_velocity_and_position:
  assumes "crashed (state (vehicle_at w r)) \<longrightarrow> 0 \<le> velocity (state (vehicle_at w r))"
  shows "0 \<le> velocity (state (vehicle_at (Vehicle_move w r now dt) r))
       \<and> state_x (state (vehicle_at w r)) \<le> state_x (state (vehicle_at (Vehicle_move w r now dt) r))
       \<and> crashed (state (vehicle_at (crash w r) r))
       \<and> velocity (state (vehicle_at (crash w r) r)) = 0
       \<and> acceleration (state (vehicle_at (crash w r) r)) = 0
       \<and> fold (\<lambda>(now', dt') w'. Vehicle_move w' r now' dt') ms (crash w r) = crash w r"
proof (cases "crashed (state (vehicle_at w r))")
  case True
  with assms show ?thesis
    by (simp add: Vehicle_move_crashed crash_state moves_after_crash)
next
  case False
  then show ?thesis
    by (simp add: Vehicle_move_velocity Vehicle_move_x crash_state moves_after_crash)
qed

lemma set_left_lane_sel [simp]:
  "vehicle_at (set_left_lane w l other) = vehicle_at w"
  "driver_at (set_left_lane w l other) = driver_at w"
  "next_vref (set_left_lane w l other) = next_vref w"
  "next_dref (set_left_lane w l other) = next_dref w"
  "model (set_left_lane w l other) = model w"
  "vehicles (lane_at (set_left_lane w l other) l') = vehicles (lane_at w l')"
  "left_lane (lane_at (set_left_lane w l other) l) = other"
  by (simp_all add: set_left_lane_def Let_def split: option.splits)

lemma lc_world0_vehicle: "vehicle_at lc_world0 0 = Vehicle_init 1 10 100"
  by (simp add: lc_world0_def Lane_add_vehicle_self_eq empty_world_sel Vehicle_init_def)

lemma braking_world_state:
  "state (vehicle_at braking_world 0) =
     \<lparr>state_x = 100, state_y = 0, velocity = 2, acceleration = - 3,
      lane_change_progress = 0, crashed = False\<rparr>"
  by (simp add: braking_world_def set_acceleration_def lc_world0_vehicle Vehicle_init_def)

theorem move_keeps_velocity_and_position_witness:
  "\<not> crashed (state (vehicle_at braking_world 0))
   \<and> velocity (state (vehicle_at braking_world 0))
       + 1 * acceleration (state (vehicle_at braking_world 0)) < 0
   \<and> 0 \<le> velocity (state (vehicle_at (Vehicle_move braking_world 0 0 1) 0))
   \<and> state_x (state (vehicle_at braking_world 0))
       \<le> state_x (state (vehicle_at (Vehicle_move braking_world 0 0 1) 0))
   \<and> velocity (state (vehicle_at (crash braking_world 0) 0)) = 0
   \<and> fold (\<lambda>(now', dt') w'. Vehicle_move w' 0 now' dt') [(0, 1), (1, 1)] (crash braking_world 0)
       = crash braking_world 0"
proof -
  have h: "crashed (state (vehicle_at braking_world 0))
           \<longrightarrow> 0 \<le> velocity (state (vehicle_at braking_world 0))"
    by (simp add: braking_world_state)
  have s: "\<not> crashed (state (vehicle_at braking_world 0))"
    "velocity (state (vehicle_at braking_world 0))
       + 1 * acceleration (state (vehicle_at braking_world 0)) < 0"
    by (simp_all add: braking_world_state)
  from move_keeps_velocity_and_position [OF h, of 0 1 "[(0, 1), (1, 1)]"] s
  show ?thesis by blast
qed


subsection \<open>Completing a lane change\<close>

lemma Vehicle_move_completion_self:
  assumes nc: "\<not> crashed (state (vehicle_at w r))"
    and dy: "dy (vehicle_at w r) \<noteq> 0"
    and pr: "lane_change_progress (state (vehicle_at w r)) + dy (vehicle_at w r) * dt \<ge> 1"
    and tg: "target_lane_of w r = Some t"
  shows "lane (vehicle_at (Vehicle_move w r now dt) r) = t"
    and "lane_change_progress (state (vehicle_at (Vehicle_move w r now dt) r)) = 0"
    and "lc_direction (vehicle_at (Vehicle_move w r now dt) r) = None"
    and "dy (vehicle_at (Vehicle_move w r now dt) r) = 0"
proof -
  let ?w1 = "store_acceleration w r now"
  have lat: "vehicle_at (lateral_movement ?w1 r dt) r =
      (vehicle_at ?w1 r)\<lparr>lane := t,
         state := (state (vehicle_at ?w1 r))\<lparr>lane_change_progress := 0\<rparr>,
         lc_direction := None, dy := 0\<rparr>"
    using dy pr tg by (simp add: lateral_movement_self store_acceleration_self Let_def)
  have self: "vehicle_at (Vehicle_move w r now dt) r =
      vehicle_at (longitudinal_movement (lateral_movement ?w1 r dt) r dt) r"
    using nc by (simp add: Vehicle_move_def)
  show "lane (vehicle_at (Vehicle_move w r now dt) r) = t"
    by (simp add: self longitudinal_movement_self lat Let_def)
  show "lane_change_progress (state (vehicle_at (Vehicle_move w r now dt) r)) = 0"
    by (simp add: self longitudinal_movement_self lat Let_def)
  show "lc_direction (vehicle_at (Vehicle_move w r now dt) r) = None"
    by (simp add: self longitudinal_movement_self lat Let_def)
  show "dy (vehicle_at (Vehicle_move w r now dt) r) = 0"
    by (simp add: self longitudinal_movement_self lat Let_def)
qed

lemma Vehicle_move_completion_lanes:
  assumes nc: "\<not> crashed (state (vehicle_at w r))"
    and dy: "dy (vehicle_at w r) \<noteq> 0"
    and pr: "lane_change_progress (state (vehicle_at w r)) + dy (vehicle_at w r) * dt \<ge> 1"
    and tg: "target_lane_of w r = Some t"
    and d1: "distinct (vehicles (lane_at w (lane (vehicle_at w r))))"
    and d2: "distinct (vehicles (lane_at w t))"
  shows "r \<in> set (vehicles (lane_at (Vehicle_move w r now dt) t))"
    and "distinct (vehicles (lane_at (Vehicle_move w r now dt) t))"
    and "lane (vehicle_at w r) \<noteq> t \<Longrightarrow>
         r \<notin> set (vehicles (lane_at (Vehicle_move w r now dt) (lane (vehicle_at w r))))"
proof -
  let ?w1 = "store_acceleration w r now"
  let ?wp = "upd_state ?w1 r (\<lambda>s. s\<lparr>lane_change_progress :=
                lane_change_progress s + dy (vehicle_at ?w1 r) * dt\<rparr>)"
  let ?w' = "Vehicle_move w r now dt"
  have dy1: "dy (vehicle_at ?w1 r) \<noteq> 0" using dy by (simp add: store_acceleration_self)
  have pr1: "lane_change_progress (state (vehicle_at ?w1 r)) + dy (vehicle_at ?w1 r) * dt \<ge> 1"
    using pr by (simp add: store_acceleration_self)
  have ch: "is_changing_lane ?wp r"
    using pr1 by (simp add: is_changing_lane_def)
  have tgp: "target_lane_of ?wp r = Some t" using tg by simp
  have lane_p: "lane (vehicle_at ?wp r) = lane (vehicle_at w r)"
    by (simp add: store_acceleration_self)
  have lanes_p: "lane_at ?wp = lane_at w" by simp
  have lanes: "lane_at ?w' = lane_at (end_lane_change ?wp r)"
    using nc lateral_movement_vehicles [OF dy1 pr1] by (simp add: Vehicle_move_def)
  from d1 have d1p: "distinct (vehicles (lane_at ?wp (lane (vehicle_at ?wp r))))"
    by (simp only: lane_p lanes_p)
  from d2 have d2p: "distinct (vehicles (lane_at ?wp t))" by (simp only: lanes_p)
  note tl = end_lane_change_target_list [OF ch tgp d1p d2p]
  show "r \<in> set (vehicles (lane_at ?w' t))" using tl(1) by (simp only: lanes)
  show "distinct (vehicles (lane_at ?w' t))" using tl(2) by (simp only: lanes)
  show "r \<notin> set (vehicles (lane_at ?w' (lane (vehicle_at w r))))"
    if "lane (vehicle_at w r) \<noteq> t"
    using tl(3) that by (simp only: lanes lane_p) blast
qed

text \<open>
  C3 (as amended). When \<^verbatim>\<open>move(dt)\<close> of a vehicle that is not crashed brings
  \<^verbatim>\<open>lane_change_progress\<close> to 1 or beyond, and \<open>t\<close> is the neighbour, on the side of the
  stored direction, that the vehicle's lane has when \<^verbatim>\<open>move\<close> runs, then afterwards the
  vehicle's lane reference is \<open>t\<close>, the vehicle occurs exactly once in the list of \<open>t\<close> and
  (for \<open>t\<close> other than the old lane) not at all in the old lane's list, the progress is 0
  and the direction is cleared. The lane lists are assumed free of duplicates, as
  \<^verbatim>\<open>Lane.add_vehicle\<close> keeps them.
\<close>

theorem lane_change_completion:
  assumes "\<not> crashed (state (vehicle_at w r))"
    and "dy (vehicle_at w r) \<noteq> 0"
    and "lane_change_progress (state (vehicle_at w r)) + dy (vehicle_at w r) * dt \<ge> 1"
    and "target_lane_of w r = Some t"
    and "distinct (vehicles (lane_at w (lane (vehicle_at w r))))"
    and "distinct (vehicles (lane_at w t))"
  shows "lane (vehicle_at (Vehicle_move w r now dt) r) = t
       \<and> count_list (vehicles (lane_at (Vehicle_move w r now dt) t)) r = 1
       \<and> (lane (vehicle_at w r) \<noteq> t \<longrightarrow>
            r \<notin> set (vehicles (lane_at (Vehicle_move w r now dt) (lane (vehicle_at w r)))))
       \<and> lane_change_progress (state (vehicle_at (Vehicle_move w r now dt) r)) = 0
       \<and> lc_direction (vehicle_at (Vehicle_move w r now dt) r) = None
       \<and> get_lane_change_direction (Vehicle_move w r now dt) r = None"
proof -
  note self = Vehicle_move_completion_self [OF assms(1-4), of now]
  note ls = Vehicle_move_completion_lanes [OF assms, of now]
  have "count_list (vehicles (lane_at (Vehicle_move w r now dt) t)) r = 1"
    using ls(1,2) by (simp only: distinct_count_list_one)
  moreover have "get_lane_change_direction (Vehicle_move w r now dt) r = None"
    by (simp add: get_lane_change_direction_def self(3))
  ultimately show ?thesis using self(1-3) ls(3) by blast
qed

lemma lc_world0_lanes:
  "left_lane (lane_at lc_world0 10) = Some 11"
  "vehicles (lane_at lc_world0 10) = [0]"
  "vehicles (lane_at lc_world0 11) = []"
  "vehicles (lane_at lc_world0 12) = []"
  by (simp_all add: lc_world0_def Lane_add_vehicle_vehicles empty_world_sel
        Lane_add_vehicle_def Let_def)

lemma lc_world1_vehicle:
  "vehicle_at lc_world1 0 = (Vehicle_init 1 10 100)\<lparr>lc_direction := Some LEFT, dy := 1 / 3\<rparr>"
  by (simp add: lc_world1_def start_lane_change_def is_changing_lane_def lc_world0_vehicle
        Let_def Vehicle_init_def)

lemma lc_world1_lanes: "lane_at lc_world1 = lane_at lc_world0"
  by (simp add: lc_world1_def start_lane_change_def Let_def)

lemma lc_target1: "target_lane_of lc_world1 0 = Some 11"
  by (simp add: target_lane_of_def lc_world1_vehicle lc_world1_lanes lc_world0_lanes Vehicle_init_def)

lemma lc_world2_vehicle: "vehicle_at lc_world2 = vehicle_at lc_world1"
  by (simp add: lc_world2_def)

lemma lc_target2: "target_lane_of lc_world2 0 = Some 12"
  by (simp add: target_lane_of_def lc_world2_vehicle lc_world1_vehicle lc_world2_def Vehicle_init_def)

theorem lane_change_completion_witness:
  "target_lane_of lc_world1 0 = Some 11
   \<and> lane (vehicle_at lc_world1 0) = 10
   \<and> lane (vehicle_at (Vehicle_move lc_world1 0 0 3) 0) = 11
   \<and> count_list (vehicles (lane_at (Vehicle_move lc_world1 0 0 3) 11)) 0 = 1
   \<and> 0 \<notin> set (vehicles (lane_at (Vehicle_move lc_world1 0 0 3) 10))
   \<and> lane_change_progress (state (vehicle_at (Vehicle_move lc_world1 0 0 3) 0)) = 0
   \<and> lc_direction (vehicle_at (Vehicle_move lc_world1 0 0 3) 0) = None"
proof -
  have h: "\<not> crashed (state (vehicle_at lc_world1 0))"
    "dy (vehicle_at lc_world1 0) \<noteq> 0"
    "lane_change_progress (state (vehicle_at lc_world1 0)) + dy (vehicle_at lc_world1 0) * 3 \<ge> 1"
    "distinct (vehicles (lane_at lc_world1 (lane (vehicle_at lc_world1 0))))"
    "distinct (vehicles (lane_at lc_world1 11))"
    by (simp_all add: lc_world1_vehicle lc_world1_lanes lc_world0_lanes Vehicle_init_def)
  have l: "lane (vehicle_at lc_world1 0) = 10" "lane (vehicle_at lc_world1 0) \<noteq> 11"
    by (simp_all add: lc_world1_vehicle Vehicle_init_def)
  from lane_change_completion [OF h(1-3) lc_target1 h(4,5), of 0] l lc_target1
  show ?thesis by simp
qed

text \<open>
  C3 as stated fails: in \<open>lc_world1\<close> the change has started and the left neighbour is
  lane 11; lane 10 is then given lane 12 as its left neighbour (\<open>lc_world2\<close>); the move
  that completes the change puts the vehicle on lane 12, not on lane 11.
\<close>

theorem lane_change_target_counterexample:
  "target_lane_of lc_world1 0 = Some 11
   \<and> \<not> crashed (state (vehicle_at lc_world2 0))
   \<and> lane_change_progress (state (vehicle_at lc_world2 0)) + dy (vehicle_at lc_world2 0) * 3 \<ge> 1
   \<and> lane (vehicle_at (Vehicle_move lc_world2 0 0 3) 0) = 12
   \<and> lane (vehicle_at (Vehicle_move lc_world2 0 0 3) 0) \<noteq> 11"
proof -
  have h: "\<not> crashed (state (vehicle_at lc_world2 0))"
    "dy (vehicle_at lc_world2 0) \<noteq> 0"
    "lane_change_progress (state (vehicle_at lc_world2 0)) + dy (vehicle_at lc_world2 0) * 3 \<ge> 1"
    by (simp_all add: lc_world2_vehicle lc_world1_vehicle Vehicle_init_def)
  from Vehicle_move_completion_self(1) [OF h lc_target2, of 0] h lc_target1
  show ?thesis by simp
qed

subsection \<open>The tick: what each phase leaves alone\<close>

lemma model_fixed_sel [simp]:
  "current_time (model_fixed m) = current_time m"
  "sim_state (model_fixed m) = sim_state m"
  "settings (model_fixed m) = settings m"
  "lanes (model_fixed m) = lanes m"
  "routes (model_fixed m) = routes m"
  "next_vehicle_id (model_fixed m) = next_vehicle_id m"
  "next_driver_id (model_fixed m) = next_driver_id m"
  by (simp_all add: model_fixed_def)

lemma model_fixed_upd [simp]:
  "model_fixed (m\<lparr>model_vehicles := vs\<rparr>) = model_fixed m"
  "model_fixed (m\<lparr>drivers := ds\<rparr>) = model_fixed m"
  "model_fixed (m\<lparr>stats := st\<rparr>) = model_fixed m"
  by (simp_all add: model_fixed_def)

lemma fold_preserves:
  assumes "\<And>x w. P (f x w) = P w"
  shows "P (fold f xs w) = P w"
  by (induction xs arbitrary: w) (simp_all add: assms)

text \<open>Refreshing the neighbour caches touches vehicles only.\<close>

lemma update_surrounding_sel [simp]:
  "lane_at (update_surrounding w r a v) = lane_at w"
  "driver_at (update_surrounding w r a v) = driver_at w"
  "model (update_surrounding w r a v) = model w"
  "next_vref (update_surrounding w r a v) = next_vref w"
  "next_dref (update_surrounding w r a v) = next_dref w"
  by (simp_all add: update_surrounding_def)

lemma update_one_surrounding_sel [simp]:
  "lane_at (update_one_surrounding l r w) = lane_at w"
  "driver_at (update_one_surrounding l r w) = driver_at w"
  "model (update_one_surrounding l r w) = model w"
  by (simp_all add: update_one_surrounding_def Let_def)

lemma update_vehicle_surroundings_sel [simp]:
  "lane_at (update_vehicle_surroundings w l) = lane_at w"
  "driver_at (update_vehicle_surroundings w l) = driver_at w"
  "model (update_vehicle_surroundings w l) = model w"
  unfolding update_vehicle_surroundings_def
  by (rule fold_preserves, simp)+

lemma update_network_sel [simp]:
  "lane_at (update_network w) = lane_at w"
  "driver_at (update_network w) = driver_at w"
  "model (update_network w) = model w"
  unfolding update_network_def
  by (rule fold_preserves, simp)+


text \<open>Driver objects are not touched by lane and vehicle operations.\<close>

lemma Lane_remove_vehicle_driver_at [simp]:
  "driver_at (Lane_remove_vehicle w l r) = driver_at w"
  by (simp add: Lane_remove_vehicle_def)

lemma end_lane_change_driver_at [simp]: "driver_at (end_lane_change w r) = driver_at w"
  by (simp add: end_lane_change_def Let_def split: option.splits)

lemma Vehicle_move_driver_at [simp]: "driver_at (Vehicle_move w r now dt) = driver_at w"
  by (simp add: Vehicle_move_def longitudinal_movement_def lateral_movement_def
        store_acceleration_def Let_def)

text \<open>Driving touches vehicles only.\<close>

lemma set_acceleration_sel [simp]:
  "lane_at (set_acceleration w r a) = lane_at w"
  "driver_at (set_acceleration w r a) = driver_at w"
  "model (set_acceleration w r a) = model w"
  "vehicle_at (set_acceleration w r a) =
     (vehicle_at w)(r := (vehicle_at w r)\<lparr>state := (state (vehicle_at w r))\<lparr>acceleration := a\<rparr>\<rparr>)"
  by (simp_all add: set_acceleration_def)

lemma start_lane_change_sel [simp]:
  "lane_at (snd (start_lane_change w r dir dur)) = lane_at w"
  "driver_at (snd (start_lane_change w r dir dur)) = driver_at w"
  "model (snd (start_lane_change w r dir dur)) = model w"
  by (simp_all add: start_lane_change_def Let_def)

lemma consider_right_lane_sel [simp]:
  "lane_at (snd (consider_right_lane w drv veh)) = lane_at w"
  "driver_at (snd (consider_right_lane w drv veh)) = driver_at w"
  "model (snd (consider_right_lane w drv veh)) = model w"
  by (simp_all add: consider_right_lane_def split: option.splits sum.splits)

lemma consider_lane_change_sel [simp]:
  "lane_at (snd (consider_lane_change w drv)) = lane_at w"
  "driver_at (snd (consider_lane_change w drv)) = driver_at w"
  "model (snd (consider_lane_change w drv)) = model w"
  by (simp_all add: consider_lane_change_def split: option.splits sum.splits)

lemma IDM_drive_sel [simp]:
  "lane_at (snd (IDM_drive w drv)) = lane_at w"
  "driver_at (snd (IDM_drive w drv)) = driver_at w"
  "model (snd (IDM_drive w drv)) = model w"
  by (simp_all add: IDM_drive_def split: option.splits sum.splits)

lemma Simple_drive_sel [simp]:
  "lane_at (snd (Simple_drive w drv)) = lane_at w"
  "driver_at (snd (Simple_drive w drv)) = driver_at w"
  "model (snd (Simple_drive w drv)) = model w"
  by (simp_all add: Simple_drive_def Let_def split: option.splits)

lemma drive_sel [simp]:
  "lane_at (snd (drive w d)) = lane_at w"
  "driver_at (snd (drive w d)) = driver_at w"
  "model (snd (drive w d)) = model w"
  by (simp_all add: drive_def split: Driver.splits)

lemma drive_all_sel [simp]:
  "lane_at (drive_all w ds) = lane_at w"
  "driver_at (drive_all w ds) = driver_at w"
  "model (drive_all w ds) = model w"
  unfolding drive_all_def
  by (rule fold_preserves, simp)+

text \<open>What removing a vehicle from the model leaves alone.\<close>

lemma remove_vehicle_vehicle_at [simp]: "vehicle_at (remove_vehicle w k) = vehicle_at w"
  by (simp add: remove_vehicle_def Let_def split: option.splits)

lemma remove_vehicle_driver_at [simp]: "driver_at (remove_vehicle w k) = driver_at w"
  by (simp add: remove_vehicle_def Let_def split: option.splits)

lemma remove_vehicle_static [simp]:
  "lane_static (lane_at (remove_vehicle w k) l) = lane_static (lane_at w l)"
  by (simp add: remove_vehicle_def Let_def split: option.splits)

lemma remove_vehicle_fixed [simp]:
  "model_fixed (model (remove_vehicle w k)) = model_fixed (model w)"
  by (simp add: remove_vehicle_def Let_def split: option.splits)

lemma remove_vehicle_registry:
  "model_vehicles (model (remove_vehicle w k)) = AList.delete k (model_vehicles (model w))"
proof (cases "map_of (model_vehicles (model w)) k")
  case None
  then have "k \<notin> fst ` set (model_vehicles (model w))" by (simp add: map_of_eq_None_iff)
  with None show ?thesis by (simp add: remove_vehicle_def)
next
  case (Some r)
  then show ?thesis by (simp add: remove_vehicle_def Let_def split: option.splits)
qed

text \<open>The loop over the vehicles.\<close>

lemma move_and_check_fixed [simp]:
  "model_fixed (model (move_and_check clock dt r w)) = model_fixed (model w)"
  by (simp add: move_and_check_def Let_def)

lemma move_and_check_static [simp]:
  "lane_static (lane_at (move_and_check clock dt r w) l) = lane_static (lane_at w l)"
  by (simp add: move_and_check_def Let_def)

lemma move_and_check_driver_at [simp]:
  "driver_at (move_and_check clock dt r w) = driver_at w"
  by (simp add: move_and_check_def Let_def)

lemma move_and_check_other [simp]:
  "r' \<noteq> r \<Longrightarrow> vehicle_at (move_and_check clock dt r w) r' = vehicle_at w r'"
  by (simp add: move_and_check_def Let_def)

lemma move_all_fixed [simp]:
  "model_fixed (model (move_all w clock dt rs)) = model_fixed (model w)"
  unfolding move_all_def by (rule fold_preserves) simp

lemma move_all_static [simp]:
  "lane_static (lane_at (move_all w clock dt rs) l) = lane_static (lane_at w l)"
  unfolding move_all_def by (rule fold_preserves) simp

lemma update_statistics_sel [simp]:
  "vehicle_at (update_statistics w) = vehicle_at w"
  "lane_at (update_statistics w) = lane_at w"
  "driver_at (update_statistics w) = driver_at w"
  "model_fixed (model (update_statistics w)) = model_fixed (model w)"
  "model_vehicles (model (update_statistics w)) = model_vehicles (model w)"
  "drivers (model (update_statistics w)) = drivers (model w)"
  by (simp_all add: update_statistics_def Let_def)

lemma advance_clock_sel [simp]:
  "vehicle_at (advance_clock w dt) = vehicle_at w"
  "lane_at (advance_clock w dt) = lane_at w"
  "driver_at (advance_clock w dt) = driver_at w"
  "model_vehicles (model (advance_clock w dt)) = model_vehicles (model w)"
  "drivers (model (advance_clock w dt)) = drivers (model w)"
  "lanes (model (advance_clock w dt)) = lanes (model w)"
  "model_fixed (model (advance_clock w dt))
     = model_fixed ((model w)\<lparr>current_time := current_time (model w) + dt\<rparr>)"
  by (simp_all add: advance_clock_def Let_def)

lemma update_simulation_fixed:
  "model_fixed (model (update_simulation w clock dt))
     = model_fixed ((model w)\<lparr>current_time := current_time (model w) + dt\<rparr>)"
  by (simp add: update_simulation_def Let_def)


lemma update_simulation_current_time:
  "current_time (model (update_simulation w clock dt)) = current_time (model w) + dt"
proof -
  have "current_time (model (update_simulation w clock dt))
        = current_time (model_fixed (model (update_simulation w clock dt)))"
    by simp
  also have "\<dots> = current_time (model w) + dt"
    by (simp only: update_simulation_fixed) simp
  finally show ?thesis .
qed

lemma update_simulation_sim_state:
  "sim_state (model (update_simulation w clock dt)) = sim_state (model w)"
proof -
  have "sim_state (model (update_simulation w clock dt))
        = sim_state (model_fixed (model (update_simulation w clock dt)))"
    by simp
  also have "\<dots> = sim_state (model w)"
    by (simp only: update_simulation_fixed) simp
  finally show ?thesis .
qed

text \<open>
  C7. Called in state STOPPED or PAUSED, \<^verbatim>\<open>step_simulation()\<close> is one application of the
  tick with the configured \<^verbatim>\<open>time_step\<close> followed by setting the state to PAUSED: the
  simulation clock has advanced by exactly \<^verbatim>\<open>time_step\<close> and the state is PAUSED. Called
  in state RUNNING it changes nothing, and \<^verbatim>\<open>start_simulation()\<close> called in state RUNNING
  changes nothing.
\<close>

theorem step_and_start_state_machine:
  "(sim_state (model w) \<in> {STOPPED, PAUSED} \<longrightarrow>
      step_simulation w clock =
        upd_model (update_simulation w clock (time_step (settings (model w))))
          (\<lambda>m. m\<lparr>sim_state := PAUSED\<rparr>)
      \<and> current_time (model (step_simulation w clock))
          = current_time (model w) + time_step (settings (model w))
      \<and> sim_state (model (step_simulation w clock)) = PAUSED)
   \<and> (sim_state (model w) = RUNNING \<longrightarrow> step_simulation w clock = w)
   \<and> (sim_state (model w) = RUNNING \<longrightarrow> start_simulation w now = w)"
  by (simp add: step_simulation_def start_simulation_def update_simulation_current_time)

subsection \<open>Adding a vehicle to the model\<close>

lemma new_Driver_sel [simp]:
  "vehicle_at (snd (new_Driver w drv)) = vehicle_at w"
  "lane_at (snd (new_Driver w drv)) = lane_at w"
  "driver_at (snd (new_Driver w drv)) = (driver_at w)(next_dref w := drv)"
  "next_vref (snd (new_Driver w drv)) = next_vref w"
  "next_dref (snd (new_Driver w drv)) = Suc (next_dref w)"
  "model (snd (new_Driver w drv)) = model w"
  "fst (new_Driver w drv) = next_dref w"
  by (simp_all add: new_Driver_def)

lemma set_vehicle_sel [simp]:
  "vehicle_at (set_vehicle w d r) = (vehicle_at w)(r := (vehicle_at w r)\<lparr>driver := Some d\<rparr>)"
  "lane_at (set_vehicle w d r) = lane_at w"
  "driver_at (set_vehicle w d r) = (driver_at w)(d := with_vehicle r (driver_at w d))"
  "next_vref (set_vehicle w d r) = next_vref w"
  "next_dref (set_vehicle w d r) = next_dref w"
  "model (set_vehicle w d r) = model w"
  by (simp_all add: set_vehicle_def Let_def)

lemma set_route_sel [simp]:
  "vehicle_at (set_route w d rt) = vehicle_at w"
  "lane_at (set_route w d rt) = lane_at w"
  "driver_at (set_route w d rt) = (driver_at w)(d := with_route rt (driver_at w d))"
  "next_vref (set_route w d rt) = next_vref w"
  "next_dref (set_route w d rt) = next_dref w"
  "model (set_route w d rt) = model w"
  by (simp_all add: set_route_def)

lemma driver_vehicle_with [simp]:
  "driver_vehicle (with_vehicle r drv) = Some r"
  "driver_vehicle (with_route rt drv) = driver_vehicle drv"
  "get_id (with_vehicle r drv) = get_id drv"
  "get_id (with_route rt drv) = get_id drv"
  by (cases drv; simp)+

lemma get_id_create_driver [simp]: "get_id (create_driver did ty) = did"
  by (simp add: create_driver_def IDMDriver_init_def SimpleDriver_init_def
        adjust_parameters_for_type_def split: DriverType.splits)

lemma construct_vehicle_fst:
  "fst (construct_vehicle w l ty pos route) = (next_vref w, next_dref w)"
  by (simp add: construct_vehicle_def Let_def split_beta)

lemma construct_vehicle_sel:
  "model (snd (construct_vehicle w l ty pos route)) = model w"
  "lane_at (snd (construct_vehicle w l ty pos route)) = lane_at w"
  "next_vref (snd (construct_vehicle w l ty pos route)) = Suc (next_vref w)"
  "next_dref (snd (construct_vehicle w l ty pos route)) = Suc (next_dref w)"
  "vehicle_at (snd (construct_vehicle w l ty pos route)) =
     (vehicle_at w)(next_vref w :=
        (Vehicle_init (next_vehicle_id (model w)) l pos)\<lparr>driver := Some (next_dref w)\<rparr>)"
  "driver_at (snd (construct_vehicle w l ty pos route)) =
     (driver_at w)(next_dref w :=
        (case route of
           None \<Rightarrow> with_vehicle (next_vref w) (create_driver (next_driver_id (model w)) ty)
         | Some rt \<Rightarrow> with_route rt
             (with_vehicle (next_vref w) (create_driver (next_driver_id (model w)) ty))))"
  by (simp_all add: construct_vehicle_def Let_def split_beta split: option.splits)

lemma get_x_upd_model [simp]: "get_x (upd_model w f) = get_x w"
  by (rule ext) (simp add: get_x_def)

lemma insert_vehicle_sel:
  "vehicle_at (insert_vehicle w l r d) = vehicle_at (Lane_add_vehicle w l r)"
  "lane_at (insert_vehicle w l r d) = lane_at (Lane_add_vehicle w l r)"
  "driver_at (insert_vehicle w l r d) = driver_at w"
  "next_vref (insert_vehicle w l r d) = next_vref w"
  "next_dref (insert_vehicle w l r d) = next_dref w"
  "model (insert_vehicle w l r d) =
     (model w)\<lparr>model_vehicles := AList.update (vehicle_id (vehicle_at w r)) r (model_vehicles (model w)),
               drivers := AList.update (get_id (driver_at w d)) d (drivers (model w)),
               next_vehicle_id := next_vehicle_id (model w) + 1,
               next_driver_id := next_driver_id (model w) + 1,
               stats := (stats (model w))\<lparr>total_vehicles := total_vehicles (stats (model w)) + 1,
                           active_vehicles := active_vehicles (stats (model w)) + 1\<rparr>\<rparr>"
  by (simp_all add: insert_vehicle_def Let_def Lane_add_vehicle_def)


lemma add_vehicle_unknown_lane:
  "map_of (lanes (model w)) lid = None \<Longrightarrow> add_vehicle w lid ty pos route = (None, w)"
  by (simp add: add_vehicle_def)

lemma add_vehicle_known_lane:
  "map_of (lanes (model w)) lid = Some l \<Longrightarrow>
   add_vehicle w lid ty pos route =
     (Some (next_vref w),
      insert_vehicle (snd (construct_vehicle w l ty pos route)) l (next_vref w) (next_dref w))"
  by (simp add: add_vehicle_def split_beta construct_vehicle_fst Let_def)

lemma Vehicle_init_sel [simp]:
  "vehicle_id (Vehicle_init vid l x0) = vid"
  "lane (Vehicle_init vid l x0) = l"
  "driver (Vehicle_init vid l x0) = None"
  by (simp_all add: Vehicle_init_def)

text \<open>
  C8. For a lane id that is not registered \<^verbatim>\<open>add_vehicle\<close> returns \<^verbatim>\<open>None\<close> and the whole
  state is unchanged. For a registered lane the construction phase leaves the model (all
  registries, counters and statistics) and the lanes as they were and yields a vehicle
  whose driver is set and a driver whose vehicle is that vehicle; \<^verbatim>\<open>add_vehicle\<close> is the
  insertion phase applied to that state and returns that vehicle, unchanged by the
  insertion, with vehicle and driver entered in the registries under their ids.
\<close>

theorem add_vehicle_build_then_insert:
  "(map_of (lanes (model w)) lid = None \<longrightarrow> add_vehicle w lid ty pos route = (None, w))
   \<and> (\<forall>l. map_of (lanes (model w)) lid = Some l \<longrightarrow>
         fst (construct_vehicle w l ty pos route) = (next_vref w, next_dref w)
         \<and> model (snd (construct_vehicle w l ty pos route)) = model w
         \<and> lane_at (snd (construct_vehicle w l ty pos route)) = lane_at w
         \<and> vehicle_at (snd (construct_vehicle w l ty pos route)) (next_vref w)
             = (Vehicle_init (next_vehicle_id (model w)) l pos)\<lparr>driver := Some (next_dref w)\<rparr>
         \<and> driver_vehicle (driver_at (snd (construct_vehicle w l ty pos route)) (next_dref w))
             = Some (next_vref w)
         \<and> add_vehicle w lid ty pos route =
             (Some (next_vref w),
              insert_vehicle (snd (construct_vehicle w l ty pos route)) l (next_vref w) (next_dref w))
         \<and> vehicle_at (snd (add_vehicle w lid ty pos route)) (next_vref w)
             = vehicle_at (snd (construct_vehicle w l ty pos route)) (next_vref w)
         \<and> driver_at (snd (add_vehicle w lid ty pos route))
             = driver_at (snd (construct_vehicle w l ty pos route))
         \<and> map_of (model_vehicles (model (snd (add_vehicle w lid ty pos route))))
               (next_vehicle_id (model w)) = Some (next_vref w)
         \<and> map_of (drivers (model (snd (add_vehicle w lid ty pos route))))
               (next_driver_id (model w)) = Some (next_dref w))"
proof (intro conjI allI impI)
  assume "map_of (lanes (model w)) lid = None"
  then show "add_vehicle w lid ty pos route = (None, w)" by (rule add_vehicle_unknown_lane)
next
  fix l assume l: "map_of (lanes (model w)) lid = Some l"
  let ?c = "snd (construct_vehicle w l ty pos route)"
  show "fst (construct_vehicle w l ty pos route) = (next_vref w, next_dref w)"
    by (rule construct_vehicle_fst)
  show "model ?c = model w" by (rule construct_vehicle_sel)
  show "lane_at ?c = lane_at w" by (rule construct_vehicle_sel)
  show v: "vehicle_at ?c (next_vref w)
        = (Vehicle_init (next_vehicle_id (model w)) l pos)\<lparr>driver := Some (next_dref w)\<rparr>"
    by (simp add: construct_vehicle_sel)
  show "driver_vehicle (driver_at ?c (next_dref w)) = Some (next_vref w)"
    by (simp add: construct_vehicle_sel split: option.splits)
  show a: "add_vehicle w lid ty pos route =
             (Some (next_vref w), insert_vehicle ?c l (next_vref w) (next_dref w))"
    using l by (rule add_vehicle_known_lane)
  show "vehicle_at (snd (add_vehicle w lid ty pos route)) (next_vref w) = vehicle_at ?c (next_vref w)"
    by (simp add: a insert_vehicle_sel Lane_add_vehicle_self_eq v)
  show "driver_at (snd (add_vehicle w lid ty pos route)) = driver_at ?c"
    by (simp add: a insert_vehicle_sel)
  show "map_of (model_vehicles (model (snd (add_vehicle w lid ty pos route))))
               (next_vehicle_id (model w)) = Some (next_vref w)"
    by (simp add: a insert_vehicle_sel v update_conv')
  show "map_of (drivers (model (snd (add_vehicle w lid ty pos route))))
               (next_driver_id (model w)) = Some (next_dref w)"
    by (simp add: a insert_vehicle_sel construct_vehicle_sel update_conv' split: option.splits)
qed

subsection \<open>The two-vehicle model\<close>

lemma empty_world_lane: "lane_at empty_world l = Lane_init (int l) NORMAL_LANE 1000 []"
  by (simp add: empty_world_def)

lemma Lane_init_sel [simp]:
  "lane_id (Lane_init lid ty len cs) = lid"
  "lane_length (Lane_init lid ty len cs) = len"
  "vehicles (Lane_init lid ty len cs) = []"
  "left_lane (Lane_init lid ty len cs) = None"
  "right_lane (Lane_init lid ty len cs) = None"
  "downstream_lane (Lane_init lid ty len cs) = None"
  "upstream_lane (Lane_init lid ty len cs) = None"
  by (simp_all add: Lane_init_def)

lemma update_network_no_vehicles:
  "\<forall>l \<in> snd ` set (lanes (model w)). vehicles (lane_at w l) = [] \<Longrightarrow> update_network w = w"
proof -
  have "\<forall>l \<in> set ls. vehicles (lane_at w l) = [] \<Longrightarrow>
        fold (\<lambda>l w'. update_vehicle_surroundings w' l) ls w = w" for ls
    by (induction ls) (simp_all add: update_vehicle_surroundings_def)
  from this [of "map snd (lanes (model w))"] show "\<forall>l \<in> snd ` set (lanes (model w)). vehicles (lane_at w l) = [] \<Longrightarrow> update_network w = w"
    by (simp add: update_network_def)
qed

lemma two_car0_eq:
  "two_car0 = upd_model empty_world (\<lambda>m. m\<lparr>lanes := [(10, 10)]\<rparr>)"
  unfolding two_car0_def add_lane_def
  by (subst update_network_no_vehicles)
     (simp_all add: empty_world_lane empty_world_sel TrafficSimulationModel_init_def)

lemma two_car0_facts:
  "model two_car0 = TrafficSimulationModel_init\<lparr>lanes := [(10, 10)]\<rparr>"
  "lane_at two_car0 = lane_at empty_world"
  "vehicle_at two_car0 = vehicle_at empty_world"
  "driver_at two_car0 = driver_at empty_world"
  "next_vref two_car0 = 0"
  "next_dref two_car0 = 0"
  by (simp_all add: two_car0_eq empty_world_sel)


lemma two_car1_eq:
  "two_car1 = insert_vehicle (snd (construct_vehicle two_car0 10 IDM 0 None)) 10 0 0"
proof -
  have "map_of (lanes (model two_car0)) 10 = Some 10" by (simp add: two_car0_facts)
  from add_vehicle_known_lane [OF this, of IDM 0 None] show ?thesis
    by (simp add: two_car1_def two_car0_facts)
qed

lemma two_car1_facts:
  "vehicle_at two_car1 0 = (Vehicle_init 1 10 0)\<lparr>driver := Some 0\<rparr>"
  "vehicles (lane_at two_car1 10) = [0]"
  "lane_static (lane_at two_car1 l) = lane_static (lane_at empty_world l)"
  "driver_at two_car1 0 = with_vehicle 0 (create_driver 1 IDM)"
  "next_vref two_car1 = Suc 0"
  "next_dref two_car1 = Suc 0"
  "model two_car1 =
     TrafficSimulationModel_init
       \<lparr>lanes := [(10, 10)], model_vehicles := [(1, 0)], drivers := [(1, 0)],
        next_vehicle_id := 2, next_driver_id := 2,
        stats := SimulationStats_init\<lparr>total_vehicles := 1, active_vehicles := 1\<rparr>\<rparr>"
  by (simp_all add: two_car1_eq insert_vehicle_sel construct_vehicle_sel two_car0_facts
        Lane_add_vehicle_self_eq Lane_add_vehicle_vehicles empty_world_lane
        TrafficSimulationModel_init_def SimulationStats_init_def)

lemma two_car2_eq:
  "two_car2 = insert_vehicle (snd (construct_vehicle two_car1 10 IDM 5.5 None)) 10 (Suc 0) (Suc 0)"
proof -
  have "map_of (lanes (model two_car1)) 10 = Some 10"
    by (simp add: two_car1_facts TrafficSimulationModel_init_def)
  from add_vehicle_known_lane [OF this, of IDM "5.5" None] show ?thesis
    by (simp add: two_car2_def two_car1_facts)
qed

lemma two_car2_vehicles:
  "vehicle_at two_car2 0 = (Vehicle_init 1 10 0)\<lparr>driver := Some 0\<rparr>"
  "vehicle_at two_car2 (Suc 0) = (Vehicle_init 2 10 5.5)\<lparr>driver := Some 1\<rparr>"
  by (simp_all add: two_car2_eq insert_vehicle_sel construct_vehicle_sel two_car1_facts
        Lane_add_vehicle_self_eq TrafficSimulationModel_init_def)

lemma two_car2_lane:
  "vehicles (lane_at two_car2 10) = [0, 1]"
  "lane_static (lane_at two_car2 l) = lane_static (lane_at empty_world l)"
  by (simp_all add: two_car2_eq insert_vehicle_sel construct_vehicle_sel two_car1_facts
        Lane_add_vehicle_vehicles get_x_def Vehicle_init_def TrafficSimulationModel_init_def)

lemma two_car2_drivers:
  "driver_at two_car2 0 = with_vehicle 0 (create_driver 1 IDM)"
  "driver_at two_car2 (Suc 0) = with_vehicle 1 (create_driver 2 IDM)"
  by (simp_all add: two_car2_eq insert_vehicle_sel construct_vehicle_sel two_car1_facts
        TrafficSimulationModel_init_def)

lemma two_car2_model:
  "model two_car2 =
     TrafficSimulationModel_init
       \<lparr>lanes := [(10, 10)], model_vehicles := [(1, 0), (2, 1)], drivers := [(1, 0), (2, 1)],
        next_vehicle_id := 3, next_driver_id := 3,
        stats := SimulationStats_init\<lparr>total_vehicles := 2, active_vehicles := 2\<rparr>\<rparr>"
  by (simp add: two_car2_eq insert_vehicle_sel construct_vehicle_sel two_car1_facts
        TrafficSimulationModel_init_def SimulationStats_init_def)


theorem add_vehicle_build_then_insert_witness:
  "map_of (lanes (model two_car1)) 99 = None
   \<and> add_vehicle two_car1 99 IDM 0 None = (None, two_car1)
   \<and> map_of (lanes (model two_car1)) 10 = Some 10
   \<and> next_vref two_car1 = 1
   \<and> model (snd (construct_vehicle two_car1 10 IDM 5.5 None)) = model two_car1
   \<and> driver_vehicle (driver_at (snd (construct_vehicle two_car1 10 IDM 5.5 None)) (next_dref two_car1))
       = Some 1
   \<and> fst (add_vehicle two_car1 10 IDM 5.5 None) = Some 1
   \<and> map_of (model_vehicles (model (snd (add_vehicle two_car1 10 IDM 5.5 None)))) 2 = Some 1"
proof -
  have a: "map_of (lanes (model two_car1)) 99 = None"
    and b: "map_of (lanes (model two_car1)) 10 = Some 10"
    and c: "next_vref two_car1 = 1"
    and d: "next_vehicle_id (model two_car1) = 2"
    by (simp_all add: two_car1_facts TrafficSimulationModel_init_def)
  from add_vehicle_build_then_insert [of two_car1 99 IDM 0 None] a
  have e: "add_vehicle two_car1 99 IDM 0 None = (None, two_car1)" by blast
  from add_vehicle_build_then_insert [of two_car1 10 IDM "5.5" None] b
  have f: "model (snd (construct_vehicle two_car1 10 IDM 5.5 None)) = model two_car1"
    and g: "driver_vehicle (driver_at (snd (construct_vehicle two_car1 10 IDM 5.5 None))
                             (next_dref two_car1)) = Some (next_vref two_car1)"
    and h: "add_vehicle two_car1 10 IDM 5.5 None =
             (Some (next_vref two_car1),
              insert_vehicle (snd (construct_vehicle two_car1 10 IDM 5.5 None)) 10
                (next_vref two_car1) (next_dref two_car1))"
    and i: "map_of (model_vehicles (model (snd (add_vehicle two_car1 10 IDM 5.5 None))))
              (next_vehicle_id (model two_car1)) = Some (next_vref two_car1)"
    by blast+
  have j: "fst (add_vehicle two_car1 10 IDM 5.5 None) = Some (next_vref two_car1)"
    by (simp only: h fst_conv)
  from a b c e f g [unfolded c] j [unfolded c] i [unfolded c d] show ?thesis by blast
qed

lemma running_world_state: "sim_state (model running_world) = RUNNING"
  by (simp add: running_world_def start_simulation_def)

theorem step_and_start_state_machine_witness:
  "sim_state (model two_car2) = STOPPED
   \<and> current_time (model (step_simulation two_car2 (\<lambda>r. 0))) = 0.1
   \<and> sim_state (model (step_simulation two_car2 (\<lambda>r. 0))) = PAUSED
   \<and> sim_state (model running_world) = RUNNING
   \<and> step_simulation running_world (\<lambda>r. 0) = running_world
   \<and> start_simulation running_world 5 = running_world"
proof -
  have a: "sim_state (model two_car2) = STOPPED"
    and a': "sim_state (model two_car2) \<in> {STOPPED, PAUSED}"
    and b: "current_time (model two_car2) + time_step (settings (model two_car2)) = 0.1"
    by (simp_all add: two_car2_model TrafficSimulationModel_init_def SimulationSettings_init_def)
  from step_and_start_state_machine [of two_car2 "\<lambda>r. 0" 0] a'
  have c: "current_time (model (step_simulation two_car2 (\<lambda>r. 0)))
           = current_time (model two_car2) + time_step (settings (model two_car2))"
    and d: "sim_state (model (step_simulation two_car2 (\<lambda>r. 0))) = PAUSED"
    by blast+
  from step_and_start_state_machine [of running_world "\<lambda>r. 0" 5] running_world_state
  have e: "step_simulation running_world (\<lambda>r. 0) = running_world"
    and f: "start_simulation running_world 5 = running_world"
    by blast+
  from a c [unfolded b] d e f running_world_state show ?thesis by blast
qed

subsection \<open>The IDM driver and its leader\<close>

lemma front_lookup_finds_nothing:
  "get_vehicle w veh
     (if dict_contains (surrounding (vehicle_at w veh)) (StrKey ''FRONT'')
      then value_as_key (dict_get (surrounding (vehicle_at w veh)) (StrKey ''FRONT''))
      else NoneKey) = None"
  by (simp add: get_vehicle_def)

lemma calculate_acceleration_free_flow:
  assumes "idm_vehicle drv = Some veh" and "desired_speed drv \<noteq> 0"
  shows "calculate_acceleration w drv =
           Inr (max_acceleration drv
                * (1 - (get_velocity w veh / desired_speed drv) ^ acceleration_exponent drv))"
  using assms by (simp add: calculate_acceleration_def get_vehicle_def Let_def)

lemma start_lane_change_state [simp]:
  "state (vehicle_at (snd (start_lane_change w r dir dur)) r') = state (vehicle_at w r')"
  by (simp add: start_lane_change_def Let_def)

lemma consider_right_lane_state [simp]:
  "state (vehicle_at (snd (consider_right_lane w drv veh)) r') = state (vehicle_at w r')"
  by (simp add: consider_right_lane_def split: option.splits sum.splits)

lemma consider_lane_change_state [simp]:
  "state (vehicle_at (snd (consider_lane_change w drv)) r') = state (vehicle_at w r')"
  by (simp add: consider_lane_change_def split: option.splits sum.splits)

lemma IDM_drive_acceleration:
  assumes "idm_vehicle drv = Some veh" and "desired_speed drv \<noteq> 0"
    and "\<not> crashed (state (vehicle_at w veh))"
  shows "get_acceleration (snd (IDM_drive w drv)) veh =
           max_acceleration drv
           * (1 - (get_velocity w veh / desired_speed drv) ^ acceleration_exponent drv)"
  using assms
  by (simp add: IDM_drive_def calculate_acceleration_free_flow get_acceleration_def)


lemma update_surrounding_vehicle_at:
  "vehicle_at (update_surrounding w r a v) =
     (vehicle_at w)(r := (vehicle_at w r)\<lparr>surrounding := (surrounding (vehicle_at w r))(a := v)\<rparr>)"
  by (simp add: update_surrounding_def)

lemma update_one_surrounding_vehicle_at:
  "vehicle_at (update_one_surrounding l r w) =
     (vehicle_at w)(r := (vehicle_at w r)
        \<lparr>surrounding := (surrounding (vehicle_at w r))
           (FRONT := leader (get_neighbors w l r),
            BACK := follower (get_neighbors w l r),
            LEFT_FRONT := left_leader (get_neighbors w l r),
            LEFT_BACK := left_follower (get_neighbors w l r),
            RIGHT_FRONT := right_leader (get_neighbors w l r),
            RIGHT_BACK := right_follower (get_neighbors w l r))\<rparr>)"
  by (simp add: update_one_surrounding_def Let_def update_surrounding_vehicle_at)

lemma update_one_surrounding_state [simp]:
  "state (vehicle_at (update_one_surrounding l r w) r') = state (vehicle_at w r')"
  by (simp add: update_one_surrounding_vehicle_at)

lemma get_x_update_one_surrounding [simp]: "get_x (update_one_surrounding l r w) = get_x w"
  by (rule ext) (simp add: get_x_def)

lemma get_leading_vehicle_update_one_surrounding [simp]:
  "get_leading_vehicle (update_one_surrounding l r w) l' p = get_leading_vehicle w l' p"
  by (simp add: get_leading_vehicle_def cong: list.case_cong)

lemma get_following_vehicle_update_one_surrounding [simp]:
  "get_following_vehicle (update_one_surrounding l r w) l' p = get_following_vehicle w l' p"
  by (simp add: get_following_vehicle_def cong: list.case_cong)

lemma get_neighbors_update_one_surrounding [simp]:
  "get_neighbors (update_one_surrounding l r w) l' r' = get_neighbors w l' r'"
  by (simp add: get_neighbors_def cong: option.case_cong)

lemma two_car2_links:
  "left_lane (lane_at two_car2 10) = None"
  "right_lane (lane_at two_car2 10) = None"
  "downstream_lane (lane_at two_car2 10) = None"
  "lane_length (lane_at two_car2 10) = 1000"
proof -
  have s: "lane_static (lane_at two_car2 10) = lane_static (Lane_init 10 NORMAL_LANE 1000 [])"
    by (simp add: two_car2_lane empty_world_lane)
  have "left_lane (lane_static (lane_at two_car2 10)) = None"
    "right_lane (lane_static (lane_at two_car2 10)) = None"
    "downstream_lane (lane_static (lane_at two_car2 10)) = None"
    "lane_length (lane_static (lane_at two_car2 10)) = 1000"
    by (simp_all only: s lane_static_sel Lane_init_sel)
  then show "left_lane (lane_at two_car2 10) = None"
    "right_lane (lane_at two_car2 10) = None"
    "downstream_lane (lane_at two_car2 10) = None"
    "lane_length (lane_at two_car2 10) = 1000"
    by simp_all
qed

lemma two_car2_x:
  "get_x two_car2 0 = 0"
  "get_x two_car2 (Suc 0) = 5.5"
  by (simp_all add: get_x_def two_car2_vehicles Vehicle_init_def)

lemma two_car2_neighbors0:
  "leader (get_neighbors two_car2 10 0) = Some 1"
  by (simp add: get_neighbors_def get_leading_vehicle_def two_car2_x two_car2_lane)

lemma two_car3_eq:
  "two_car3 = update_one_surrounding 10 (Suc 0) (update_one_surrounding 10 0 two_car2)"
  by (simp add: two_car3_def update_network_def update_vehicle_surroundings_def
        two_car2_model two_car2_lane TrafficSimulationModel_init_def)

lemma two_car3_front: "surrounding (vehicle_at two_car3 0) FRONT = Some 1"
  by (simp add: two_car3_eq update_one_surrounding_vehicle_at two_car2_neighbors0)

lemma two_car3_state:
  "state (vehicle_at two_car3 r) = state (vehicle_at two_car2 r)"
  by (simp add: two_car3_eq)

lemma two_car3_driver:
  "driver_at two_car3 0 = AnIDMDriver ((IDMDriver_init 1 IDM)\<lparr>idm_vehicle := Some 0\<rparr>)"
  by (simp add: two_car3_def two_car2_drivers create_driver_def)


lemma IDMDriver_init_IDM:
  "IDMDriver_init did IDM =
     \<lparr>idm_id = did, idm_type = IDM, idm_vehicle = None, idm_route = None,
      desired_speed = 33.33, time_headway = 1.5, min_spacing = 2.0,
      max_acceleration = 2.0, comfortable_deceleration = 3.0,
      acceleration_exponent = 4, politeness = 0.5, lane_change_threshold = 0.2,
      min_lane_change_gap = 10.0\<rparr>"
  by (simp add: IDMDriver_init_def adjust_parameters_for_type_def)

lemma two_car3_drive:
  "get_acceleration (snd (drive two_car3 0)) 0 = 2"
proof -
  let ?drv = "(IDMDriver_init 1 IDM)\<lparr>idm_vehicle := Some 0\<rparr>"
  have a: "idm_vehicle ?drv = Some 0" by simp
  have b: "desired_speed ?drv \<noteq> 0" by (simp add: IDMDriver_init_IDM)
  have c: "\<not> crashed (state (vehicle_at two_car3 0))"
    by (simp add: two_car3_state two_car2_vehicles Vehicle_init_def)
  have v: "get_velocity two_car3 0 = 0"
    by (simp add: get_velocity_def two_car3_state two_car2_vehicles Vehicle_init_def)
  have "get_acceleration (snd (drive two_car3 0)) 0
        = get_acceleration (snd (IDM_drive two_car3 ?drv)) 0"
    by (simp add: drive_def two_car3_driver)
  also have "\<dots> = max_acceleration ?drv
                * (1 - (get_velocity two_car3 0 / desired_speed ?drv) ^ acceleration_exponent ?drv)"
    by (rule IDM_drive_acceleration [OF a b c])
  also have "\<dots> = 2" by (simp add: v IDMDriver_init_IDM)
  finally show ?thesis .
qed

lemma update_one_surrounding_length [simp]:
  "vehicle_length (vehicle_at (update_one_surrounding l r w) r') = vehicle_length (vehicle_at w r')"
  by (simp add: update_one_surrounding_vehicle_at)

lemma two_car3_gap: "get_gap two_car3 0 (Suc 0) = 1"
  by (simp add: get_gap_def get_x_def two_car3_state)
     (simp add: two_car3_eq two_car2_vehicles Vehicle_init_def)

lemma two_car3_velocities:
  "get_velocity two_car3 0 = 0" "get_velocity two_car3 (Suc 0) = 0"
  by (simp_all add: get_velocity_def two_car3_state two_car2_vehicles Vehicle_init_def)

text \<open>
  C1. In the two-vehicle model with refreshed caches the FRONT slot of vehicle 0 holds
  vehicle 1, at a net gap of 1 m, both standing. \<^verbatim>\<open>drive()\<close> of vehicle 0's IDM driver sets
  the acceleration to 2, the free-flow value; the specification's formula against that
  leader gives -3, the comfortable-deceleration floor.
\<close>

theorem idm_drive_ignores_front_neighbor:
  "get_vehicle two_car3 0 (EnclosureKey FRONT) = Some 1
   \<and> \<not> crashed (state (vehicle_at two_car3 0))
   \<and> get_gap two_car3 0 1 = 1
   \<and> get_acceleration (snd (drive two_car3 0)) 0 = 2
   \<and> spec_idm_acceleration (IDMDriver_init 1 IDM) (get_velocity two_car3 0)
         (get_velocity two_car3 0 - get_velocity two_car3 1) (get_gap two_car3 0 1) = - 3"
proof -
  have "get_vehicle two_car3 0 (EnclosureKey FRONT) = Some 1"
    by (simp add: get_vehicle_def two_car3_front)
  moreover have "\<not> crashed (state (vehicle_at two_car3 0))"
    by (simp add: two_car3_state two_car2_vehicles Vehicle_init_def)
  moreover have "spec_idm_acceleration (IDMDriver_init 1 IDM) (get_velocity two_car3 0)
         (get_velocity two_car3 0 - get_velocity two_car3 1) (get_gap two_car3 0 1) = - 3"
    by (simp add: two_car3_velocities two_car3_gap spec_idm_acceleration_def IDMDriver_init_IDM)
  ultimately show ?thesis using two_car3_gap two_car3_drive by simp
qed

subsection \<open>Sortedness of the lane lists\<close>

lemma update_one_surrounding_core:
  "(vehicle_at (update_one_surrounding l r w) r')\<lparr>surrounding := s\<rparr>
     = (vehicle_at w r')\<lparr>surrounding := s\<rparr>"
  by (simp add: update_one_surrounding_vehicle_at)

lemma update_vehicle_surroundings_core:
  "(vehicle_at (update_vehicle_surroundings w l) r')\<lparr>surrounding := s\<rparr>
     = (vehicle_at w r')\<lparr>surrounding := s\<rparr>"
  unfolding update_vehicle_surroundings_def
  by (rule fold_preserves) (rule update_one_surrounding_core)

lemma update_network_core:
  "(vehicle_at (update_network w) r')\<lparr>surrounding := s\<rparr>
     = (vehicle_at w r')\<lparr>surrounding := s\<rparr>"
  unfolding update_network_def
  by (rule fold_preserves) (rule update_vehicle_surroundings_core)

lemma update_network_fields [simp]:
  "state (vehicle_at (update_network w) r) = state (vehicle_at w r)"
  "dy (vehicle_at (update_network w) r) = dy (vehicle_at w r)"
  "lane (vehicle_at (update_network w) r) = lane (vehicle_at w r)"
  "lc_direction (vehicle_at (update_network w) r) = lc_direction (vehicle_at w r)"
  "vehicle_id (vehicle_at (update_network w) r) = vehicle_id (vehicle_at w r)"
  "driver (vehicle_at (update_network w) r) = driver (vehicle_at w r)"
  "vehicle_length (vehicle_at (update_network w) r) = vehicle_length (vehicle_at w r)"
  using arg_cong [OF update_network_core [where w = w and r' = r and s = "\<lambda>a. None"], of state]
    arg_cong [OF update_network_core [where w = w and r' = r and s = "\<lambda>a. None"], of dy]
    arg_cong [OF update_network_core [where w = w and r' = r and s = "\<lambda>a. None"], of lane]
    arg_cong [OF update_network_core [where w = w and r' = r and s = "\<lambda>a. None"], of lc_direction]
    arg_cong [OF update_network_core [where w = w and r' = r and s = "\<lambda>a. None"], of vehicle_id]
    arg_cong [OF update_network_core [where w = w and r' = r and s = "\<lambda>a. None"], of driver]
    arg_cong [OF update_network_core [where w = w and r' = r and s = "\<lambda>a. None"], of vehicle_length]
  by simp_all


lemma consider_lane_change_no_neighbors:
  assumes "idm_vehicle drv = Some veh"
    and "left_lane (lane_at w (lane (vehicle_at w veh))) = None"
    and "right_lane (lane_at w (lane (vehicle_at w veh))) = None"
  shows "consider_lane_change w drv = (None, w)"
  using assms by (simp add: consider_lane_change_def consider_right_lane_def get_lane_def)

lemma IDM_drive_no_neighbors:
  assumes v: "idm_vehicle drv = Some veh" and d: "desired_speed drv \<noteq> 0"
    and c: "\<not> crashed (state (vehicle_at w veh))"
    and l: "left_lane (lane_at w (lane (vehicle_at w veh))) = None"
    and r: "right_lane (lane_at w (lane (vehicle_at w veh))) = None"
  shows "snd (IDM_drive w drv) =
           set_acceleration w veh
             (max_acceleration drv
              * (1 - (get_velocity w veh / desired_speed drv) ^ acceleration_exponent drv))"
proof -
  let ?a = "max_acceleration drv
              * (1 - (get_velocity w veh / desired_speed drv) ^ acceleration_exponent drv)"
  have "consider_lane_change (set_acceleration w veh ?a) drv = (None, set_acceleration w veh ?a)"
    by (rule consider_lane_change_no_neighbors [OF v]) (simp_all add: l r)
  then show ?thesis
    using v c by (simp add: IDM_drive_def calculate_acceleration_free_flow [OF v d])
qed


lemma fast_world_sel:
  "lane_at fast_world = lane_at two_car2"
  "driver_at fast_world = driver_at two_car2"
  "model fast_world = model two_car2"
  "vehicle_at fast_world (Suc 0) = vehicle_at two_car2 (Suc 0)"
  "vehicle_at fast_world 0 =
     (vehicle_at two_car2 0)\<lparr>state := (state (vehicle_at two_car2 0))\<lparr>velocity := 66.66\<rparr>\<rparr>"
  by (simp_all add: fast_world_def set_velocity_def)

lemma fast_world_tick:
  "vehicles (lane_at (update_simulation fast_world clock 0.1) 10) = [0, 1]
   \<and> get_x (update_simulation fast_world clock 0.1) 0 = 6.516
   \<and> get_x (update_simulation fast_world clock 0.1) 1 = 5.51"
proof -
  define w2 where "w2 = update_network (advance_clock fast_world 0.1)"
  define w3 where "w3 = snd (drive w2 0)"
  define w4 where "w4 = snd (drive w3 (Suc 0))"
  define w5 where "w5 = move_and_check clock 0.1 0 w4"
  define w6 where "w6 = move_and_check clock 0.1 (Suc 0) w5"
  let ?drv0 = "(IDMDriver_init 1 IDM)\<lparr>idm_vehicle := Some 0\<rparr>"
  let ?drv1 = "(IDMDriver_init 2 IDM)\<lparr>idm_vehicle := Some (Suc 0)\<rparr>"
  \<comment> \<open>after the clock and the neighbour caches\<close>
  have l2: "lane_at w2 = lane_at two_car2" by (simp add: w2_def fast_world_sel)
  have d2: "driver_at w2 = driver_at two_car2" by (simp add: w2_def fast_world_sel)
  have s20: "state (vehicle_at w2 0) =
      \<lparr>state_x = 0, state_y = 0, velocity = 66.66, acceleration = 0,
       lane_change_progress = 0, crashed = False\<rparr>"
    by (simp add: w2_def fast_world_sel two_car2_vehicles Vehicle_init_def)
  have s21: "state (vehicle_at w2 (Suc 0)) =
      \<lparr>state_x = 5.5, state_y = 0, velocity = 0, acceleration = 0,
       lane_change_progress = 0, crashed = False\<rparr>"
    by (simp add: w2_def fast_world_sel two_car2_vehicles Vehicle_init_def)
  have f2: "lane (vehicle_at w2 0) = 10" "dy (vehicle_at w2 0) = 0"
    "lane (vehicle_at w2 (Suc 0)) = 10" "dy (vehicle_at w2 (Suc 0)) = 0"
    by (simp_all add: w2_def fast_world_sel two_car2_vehicles Vehicle_init_def)
  \<comment> \<open>the two drivers\<close>
  have dr0: "driver_at w2 0 = AnIDMDriver ?drv0"
    by (simp add: d2 two_car2_drivers create_driver_def)
  have w3: "w3 = set_acceleration w2 0 (- 30)"
  proof -
    have "snd (IDM_drive w2 ?drv0) = set_acceleration w2 0
            (max_acceleration ?drv0
             * (1 - (get_velocity w2 0 / desired_speed ?drv0) ^ acceleration_exponent ?drv0))"
      by (rule IDM_drive_no_neighbors)
         (simp_all add: IDMDriver_init_IDM s20 f2 l2 two_car2_links)
    also have "max_acceleration ?drv0
             * (1 - (get_velocity w2 0 / desired_speed ?drv0) ^ acceleration_exponent ?drv0)
             = - 30"
      by (simp add: IDMDriver_init_IDM get_velocity_def s20)
    finally show ?thesis by (simp add: w3_def drive_def dr0)
  qed
  have dr1: "driver_at w3 (Suc 0) = AnIDMDriver ?drv1"
    by (simp add: w3 d2 two_car2_drivers create_driver_def)
  have w4: "w4 = set_acceleration w3 (Suc 0) 2"
  proof -
    have "snd (IDM_drive w3 ?drv1) = set_acceleration w3 (Suc 0)
            (max_acceleration ?drv1
             * (1 - (get_velocity w3 (Suc 0) / desired_speed ?drv1) ^ acceleration_exponent ?drv1))"
      by (rule IDM_drive_no_neighbors)
         (simp_all add: IDMDriver_init_IDM w3 s21 f2 l2 two_car2_links)
    also have "max_acceleration ?drv1
             * (1 - (get_velocity w3 (Suc 0) / desired_speed ?drv1) ^ acceleration_exponent ?drv1)
             = 2"
      by (simp add: IDMDriver_init_IDM get_velocity_def w3 s21)
    finally show ?thesis by (simp add: w4_def drive_def dr1)
  qed
  have l4: "lane_at w4 = lane_at two_car2" by (simp add: w4 w3 l2)
  have s40: "state (vehicle_at w4 0) =
      \<lparr>state_x = 0, state_y = 0, velocity = 66.66, acceleration = - 30,
       lane_change_progress = 0, crashed = False\<rparr>"
    by (simp add: w4 w3 s20)
  have s41: "state (vehicle_at w4 (Suc 0)) =
      \<lparr>state_x = 5.5, state_y = 0, velocity = 0, acceleration = 2,
       lane_change_progress = 0, crashed = False\<rparr>"
    by (simp add: w4 w3 s21)
  have f4: "lane (vehicle_at w4 0) = 10" "dy (vehicle_at w4 0) = 0"
    "lane (vehicle_at w4 (Suc 0)) = 10" "dy (vehicle_at w4 (Suc 0)) = 0"
    by (simp_all add: w4 w3 f2)
  \<comment> \<open>the two moves\<close>
  have nc0: "\<not> crashed (state (vehicle_at w4 0))" by (simp add: s40)
  note m0 = Vehicle_move_self [OF nc0 f4(2), of "clock 0" "0.1"]
  have lm0: "lane_at (Vehicle_move w4 0 (clock 0) 0.1) = lane_at two_car2"
    by (simp add: Vehicle_move_still_lanes f4 l4)
  have x0: "get_x (Vehicle_move w4 0 (clock 0) 0.1) 0 = 6.516"
    by (simp add: get_x_def m0 s40)
  have e0: "\<not> has_vehicle_exited (Vehicle_move w4 0 (clock 0) 0.1) 0"
    by (simp add: has_vehicle_exited_def x0 get_lane_def m0 f4 lm0 two_car2_links)
  have w5: "w5 = Vehicle_move w4 0 (clock 0) 0.1"
    using e0 by (simp add: w5_def move_and_check_def Let_def)
  have l5: "lane_at w5 = lane_at two_car2" by (simp add: w5 lm0)
  have v51: "vehicle_at w5 (Suc 0) = vehicle_at w4 (Suc 0)" by (simp add: w5)
  have x50: "get_x w5 0 = 6.516" by (simp add: w5 x0)
  have nc1: "\<not> crashed (state (vehicle_at w5 (Suc 0)))" by (simp add: v51 s41)
  have dy1: "dy (vehicle_at w5 (Suc 0)) = 0" by (simp add: v51 f4)
  note m1 = Vehicle_move_self [OF nc1 dy1, of "clock (Suc 0)" "0.1"]
  have lm1: "lane_at (Vehicle_move w5 (Suc 0) (clock (Suc 0)) 0.1) = lane_at two_car2"
    by (simp add: Vehicle_move_still_lanes dy1 l5)
  have x1: "get_x (Vehicle_move w5 (Suc 0) (clock (Suc 0)) 0.1) (Suc 0) = 5.51"
    by (simp add: get_x_def m1 v51 s41)
  have e1: "\<not> has_vehicle_exited (Vehicle_move w5 (Suc 0) (clock (Suc 0)) 0.1) (Suc 0)"
    by (simp add: has_vehicle_exited_def x1 get_lane_def m1 v51 f4 lm1 two_car2_links)
  have w6: "w6 = Vehicle_move w5 (Suc 0) (clock (Suc 0)) 0.1"
    using e1 by (simp add: w6_def move_and_check_def Let_def)
  have l6: "lane_at w6 = lane_at two_car2" by (simp add: w6 lm1)
  have x60: "get_x w6 0 = 6.516" by (simp add: w6 get_x_def x50 [unfolded get_x_def])
  have x61: "get_x w6 (Suc 0) = 5.51" by (simp add: w6 x1)
  \<comment> \<open>the tick\<close>
  have m2: "model w2 = model (advance_clock fast_world 0.1)" by (simp add: w2_def)
  have tick: "update_simulation fast_world clock 0.1 = update_statistics w6"
    by (simp add: update_simulation_def Let_def drive_all_def move_all_def
          fast_world_sel two_car2_model TrafficSimulationModel_init_def
          w6_def w5_def w4_def w3_def w2_def)
  show ?thesis
    by (simp add: tick l6 two_car2_lane get_x_def x60 [unfolded get_x_def] x61 [unfolded get_x_def])
qed


lemma get_x_Lane_add_vehicle [simp]: "get_x (Lane_add_vehicle w l r) = get_x w"
  by (rule ext) (simp add: get_x_def Lane_add_vehicle_def Let_def)

lemma get_x_insert_vehicle [simp]: "get_x (insert_vehicle w l r d) = get_x w"
  by (rule ext) (simp add: get_x_def insert_vehicle_sel get_x_Lane_add_vehicle [unfolded get_x_def fun_eq_iff])

lemma Lane_add_vehicle_sorted:
  "r \<notin> set (vehicles (lane_at w l)) \<Longrightarrow>
   sorted (map (get_x (Lane_add_vehicle w l r)) (vehicles (lane_at (Lane_add_vehicle w l r) l)))"
  by (simp add: Lane_add_vehicle_vehicles)

text \<open>
  C2 (as amended). After \<^verbatim>\<open>Lane.add_vehicle\<close> of a vehicle that is not yet in the lane's
  list, the list is sorted by ascending position; so it is after the model's
  \<^verbatim>\<open>add_vehicle\<close> on a registered lane, whose vehicle is newly created (its reference is
  in no list).
\<close>

theorem add_vehicle_sorts_lane:
  "(r \<notin> set (vehicles (lane_at w l)) \<longrightarrow>
      sorted (map (get_x (Lane_add_vehicle w l r)) (vehicles (lane_at (Lane_add_vehicle w l r) l))))
   \<and> (map_of (lanes (model w)) lid = Some l \<and> next_vref w \<notin> set (vehicles (lane_at w l)) \<longrightarrow>
        sorted (map (get_x (snd (add_vehicle w lid ty pos route)))
                  (vehicles (lane_at (snd (add_vehicle w lid ty pos route)) l))))"
proof (intro conjI impI)
  assume "r \<notin> set (vehicles (lane_at w l))"
  then show "sorted (map (get_x (Lane_add_vehicle w l r))
                       (vehicles (lane_at (Lane_add_vehicle w l r) l)))"
    by (rule Lane_add_vehicle_sorted)
next
  assume a: "map_of (lanes (model w)) lid = Some l \<and> next_vref w \<notin> set (vehicles (lane_at w l))"
  let ?c = "snd (construct_vehicle w l ty pos route)"
  have e: "snd (add_vehicle w lid ty pos route) = insert_vehicle ?c l (next_vref w) (next_dref w)"
    using a by (simp add: add_vehicle_known_lane)
  have n: "next_vref w \<notin> set (vehicles (lane_at ?c l))"
    using a by (simp add: construct_vehicle_sel)
  from Lane_add_vehicle_sorted [OF n]
  show "sorted (map (get_x (snd (add_vehicle w lid ty pos route)))
                  (vehicles (lane_at (snd (add_vehicle w lid ty pos route)) l)))"
    by (simp add: e insert_vehicle_sel)
qed

theorem add_vehicle_sorts_lane_witness:
  "map_of (lanes (model two_car1)) 10 = Some 10
   \<and> next_vref two_car1 \<notin> set (vehicles (lane_at two_car1 10))
   \<and> sorted (map (get_x (snd (add_vehicle two_car1 10 IDM 5.5 None)))
               (vehicles (lane_at (snd (add_vehicle two_car1 10 IDM 5.5 None)) 10)))
   \<and> 1 \<notin> set (vehicles (lane_at passed_world0 10))
   \<and> sorted (map (get_x (Lane_add_vehicle passed_world0 10 1))
               (vehicles (lane_at (Lane_add_vehicle passed_world0 10 1) 10)))"
proof -
  have a: "map_of (lanes (model two_car1)) 10 = Some 10"
    and b: "next_vref two_car1 \<notin> set (vehicles (lane_at two_car1 10))"
    and c: "1 \<notin> set (vehicles (lane_at passed_world0 10))"
    by (simp_all add: two_car1_facts TrafficSimulationModel_init_def passed_world0_facts)
  from add_vehicle_sorts_lane [of 1 passed_world0 10 0 IDM 0 None] c
  have d: "sorted (map (get_x (Lane_add_vehicle passed_world0 10 1))
               (vehicles (lane_at (Lane_add_vehicle passed_world0 10 1) 10)))"
    by blast
  from add_vehicle_sorts_lane [of 0 two_car1 10 10 IDM "5.5" None] a b
  have e: "sorted (map (get_x (snd (add_vehicle two_car1 10 IDM 5.5 None)))
               (vehicles (lane_at (snd (add_vehicle two_car1 10 IDM 5.5 None)) 10)))"
    by blast
  from a b c d e show ?thesis by blast
qed

lemma fast_world_sorted:
  "sorted (map (get_x fast_world) (vehicles (lane_at fast_world 10)))"
  by (simp add: fast_world_sel two_car2_lane get_x_def two_car2_vehicles Vehicle_init_def)

lemma fast_world_step:
  "step_simulation fast_world clock =
     upd_model (update_simulation fast_world clock 0.1) (\<lambda>m. m\<lparr>sim_state := PAUSED\<rparr>)"
  by (simp add: step_simulation_def fast_world_sel two_car2_model TrafficSimulationModel_init_def
        SimulationSettings_init_def)

text \<open>
  C2 as stated fails for the tick: in \<open>fast_world\<close> the list of lane 10 is sorted
  (positions 0 and 5.5); one \<^verbatim>\<open>step_simulation()\<close> moves the rear vehicle to 6.516 and the
  front one to 5.51 and leaves the list in its old order.
\<close>

theorem tick_leaves_lane_unsorted_counterexample:
  "sorted (map (get_x fast_world) (vehicles (lane_at fast_world 10)))
   \<and> \<not> sorted (map (get_x (step_simulation fast_world zero_clock))
                   (vehicles (lane_at (step_simulation fast_world zero_clock) 10)))"
proof -
  have "\<not> sorted (map (get_x (update_simulation fast_world zero_clock 0.1))
                     (vehicles (lane_at (update_simulation fast_world zero_clock 0.1) 10)))"
    using fast_world_tick [of zero_clock] by simp
  then have "\<not> sorted (map (get_x (step_simulation fast_world zero_clock))
                   (vehicles (lane_at (step_simulation fast_world zero_clock) 10)))"
    by (simp add: fast_world_step)
  with fast_world_sorted show ?thesis by blast
qed

subsection \<open>The loop over the vehicles: who is removed\<close>

lemma Vehicle_move_kept_fields [simp]:
  "vehicle_id (vehicle_at (Vehicle_move w r now dt) r') = vehicle_id (vehicle_at w r')"
  "driver (vehicle_at (Vehicle_move w r now dt) r') = driver (vehicle_at w r')"
  "crashed (state (vehicle_at (Vehicle_move w r now dt) r')) = crashed (state (vehicle_at w r'))"
proof -
  have "vehicle_id (vehicle_at (Vehicle_move w r now dt) r) = vehicle_id (vehicle_at w r)
      \<and> driver (vehicle_at (Vehicle_move w r now dt) r) = driver (vehicle_at w r)
      \<and> crashed (state (vehicle_at (Vehicle_move w r now dt) r)) = crashed (state (vehicle_at w r))"
    by (simp add: Vehicle_move_def longitudinal_movement_self lateral_movement_self
          store_acceleration_self Let_def)
  then show "vehicle_id (vehicle_at (Vehicle_move w r now dt) r') = vehicle_id (vehicle_at w r')"
    "driver (vehicle_at (Vehicle_move w r now dt) r') = driver (vehicle_at w r')"
    "crashed (state (vehicle_at (Vehicle_move w r now dt) r')) = crashed (state (vehicle_at w r'))"
    by (cases "r' = r"; simp)+
qed

lemma has_vehicle_exited_cong:
  assumes "vehicle_at w' r = vehicle_at w r"
    and "\<And>l. lane_static (lane_at w' l) = lane_static (lane_at w l)"
  shows "has_vehicle_exited w' r = has_vehicle_exited w r"
proof -
  let ?l = "lane (vehicle_at w r)"
  have "lane_length (lane_static (lane_at w' ?l)) = lane_length (lane_static (lane_at w ?l))"
    "downstream_lane (lane_static (lane_at w' ?l)) = downstream_lane (lane_static (lane_at w ?l))"
    by (simp_all only: assms(2))
  then show ?thesis
    by (simp add: has_vehicle_exited_def get_x_def get_lane_def assms(1))
qed

lemma move_and_check_kept_fields [simp]:
  "vehicle_id (vehicle_at (move_and_check clock dt r w) r') = vehicle_id (vehicle_at w r')"
  "driver (vehicle_at (move_and_check clock dt r w) r') = driver (vehicle_at w r')"
  by (simp_all add: move_and_check_def Let_def)

lemma move_and_check_self:
  "vehicle_at (move_and_check clock dt r w) r = vehicle_at (Vehicle_move w r (clock r) dt) r"
  by (simp add: move_and_check_def Let_def)

lemma move_and_check_exited:
  "has_vehicle_exited (move_and_check clock dt r w) r
     = has_vehicle_exited (Vehicle_move w r (clock r) dt) r"
  by (rule has_vehicle_exited_cong) (simp_all add: move_and_check_self)

lemma move_and_check_registry:
  "model_vehicles (model (move_and_check clock dt r w)) =
     (if has_vehicle_exited (move_and_check clock dt r w) r
      then AList.delete (vehicle_id (vehicle_at w r)) (model_vehicles (model w))
      else model_vehicles (model w))"
  unfolding move_and_check_exited
  by (simp add: move_and_check_def Let_def remove_vehicle_registry)

lemma move_all_untouched:
  "r \<notin> set rs \<Longrightarrow> vehicle_at (move_all w clock dt rs) r = vehicle_at w r"
  unfolding move_all_def
  by (induction rs arbitrary: w) simp_all

lemma move_all_kept_fields [simp]:
  "vehicle_id (vehicle_at (move_all w clock dt rs) r') = vehicle_id (vehicle_at w r')"
  "driver (vehicle_at (move_all w clock dt rs) r') = driver (vehicle_at w r')"
  unfolding move_all_def
  by (rule fold_preserves, simp)+

lemma move_all_driver_at [simp]: "driver_at (move_all w clock dt rs) = driver_at w"
  unfolding move_all_def by (rule fold_preserves) simp

lemma move_all_Cons:
  "move_all w clock dt (r # rs) = move_all (move_and_check clock dt r w) clock dt rs"
  by (simp add: move_all_def)

lemma move_all_exited_head:
  assumes "r \<notin> set rs"
  shows "has_vehicle_exited (move_all (move_and_check clock dt r w) clock dt rs) r
         = has_vehicle_exited (move_and_check clock dt r w) r"
  by (rule has_vehicle_exited_cong) (simp_all add: move_all_untouched [OF assms])


lemma delete_own_key:
  assumes d: "distinct (map fst reg)"
    and ids: "\<forall>(k, r') \<in> set reg. vid r' = k"
    and r: "r \<in> snd ` set reg"
  shows "AList.delete (vid r) reg = filter (\<lambda>(k, r'). r' \<noteq> r) reg"
proof -
  from r obtain k where kr: "(k, r) \<in> set reg" by force
  with ids have k: "vid r = k" by blast
  have "filter (\<lambda>(k', r'). vid r \<noteq> k') reg = filter (\<lambda>(k', r'). r' \<noteq> r) reg"
  proof (rule filter_cong [OF refl])
    fix x assume x: "x \<in> set reg"
    obtain k' r' where xk: "x = (k', r')" by (cases x)
    have "k' = vid r \<longleftrightarrow> r' = r"
    proof
      assume "k' = vid r"
      with k x xk have "(k, r') \<in> set reg" by simp
      with kr d show "r' = r" by (meson eq_key_imp_eq_value)
    next
      assume "r' = r"
      with ids x xk show "k' = vid r" by blast
    qed
    then show "(case x of (k', r') \<Rightarrow> vid r \<noteq> k') = (case x of (k', r') \<Rightarrow> r' \<noteq> r)"
      by (auto simp: xk)
  qed
  then show ?thesis by (simp add: AList.delete_eq)
qed

lemma registered_lookup:
  assumes "distinct (map fst reg)" and "\<forall>(k, r') \<in> set reg. vid r' = k" and "r \<in> snd ` set reg"
  shows "map_of reg (vid r) = Some r"
proof -
  from assms(3) obtain k where "(k, r) \<in> set reg" by force
  moreover with assms(2) have "vid r = k" by blast
  ultimately show ?thesis using assms(1) by simp
qed

lemma loop_step:
  assumes c: "registry_consistent w" and d: "distinct (r # rs)"
    and s: "set (r # rs) \<subseteq> snd ` set (model_vehicles (model w))"
  shows "model_vehicles (model (move_and_check clock dt r w)) =
           filter (\<lambda>(k, r'). \<not> (r' = r \<and> has_vehicle_exited (move_and_check clock dt r w) r))
             (model_vehicles (model w))"
    and "registry_consistent (move_and_check clock dt r w)"
    and "set rs \<subseteq> snd ` set (model_vehicles (model (move_and_check clock dt r w)))"
    and "map_of (model_vehicles (model w)) (vehicle_id (vehicle_at w r)) = Some r"
proof -
  let ?reg = "model_vehicles (model w)"
  let ?w2 = "move_and_check clock dt r w"
  let ?E = "has_vehicle_exited ?w2 r"
  from c have dk: "distinct (map fst ?reg)"
    and ids: "\<forall>(k, r') \<in> set ?reg. vehicle_id (vehicle_at w r') = k"
    by (simp_all add: registry_consistent_def)
  from d have rn: "r \<notin> set rs" by simp
  from s have rin: "r \<in> snd ` set ?reg" by simp
  have del: "AList.delete (vehicle_id (vehicle_at w r)) ?reg = filter (\<lambda>(k, r'). r' \<noteq> r) ?reg"
    using dk ids rin by (rule delete_own_key)
  show reg2: "model_vehicles (model ?w2) = filter (\<lambda>(k, r'). \<not> (r' = r \<and> ?E)) ?reg"
    by (simp add: move_and_check_registry del)
  have "distinct (map fst (model_vehicles (model ?w2)))"
    using dk by (simp add: reg2 distinct_map_filter)
  moreover have "\<forall>(k, r') \<in> set (model_vehicles (model ?w2)). vehicle_id (vehicle_at ?w2 r') = k"
    using ids by (auto simp: reg2)
  ultimately show "registry_consistent ?w2" by (simp add: registry_consistent_def)
  show "set rs \<subseteq> snd ` set (model_vehicles (model ?w2))"
  proof
    fix r' assume r': "r' \<in> set rs"
    with s obtain k' where "(k', r') \<in> set ?reg" by force
    moreover from r' rn have "r' \<noteq> r" by blast
    ultimately have "(k', r') \<in> set (model_vehicles (model ?w2))" by (simp add: reg2)
    then show "r' \<in> snd ` set (model_vehicles (model ?w2))" by force
  qed
  show "map_of ?reg (vehicle_id (vehicle_at w r)) = Some r"
    using dk ids rin by (rule registered_lookup)
qed

lemma move_all_registry:
  assumes "registry_consistent w" and "distinct rs"
    and "set rs \<subseteq> snd ` set (model_vehicles (model w))"
  shows "model_vehicles (model (move_all w clock dt rs)) =
           filter (\<lambda>(k, r). \<not> (r \<in> set rs \<and> has_vehicle_exited (move_all w clock dt rs) r))
             (model_vehicles (model w))"
  using assms
proof (induction rs arbitrary: w)
  case Nil
  then show ?case by (simp add: move_all_def)
next
  case (Cons r rs)
  let ?reg = "model_vehicles (model w)"
  let ?w2 = "move_and_check clock dt r w"
  let ?w' = "move_all ?w2 clock dt rs"
  note st = loop_step(1-3) [OF Cons.prems, where clock = clock and dt = dt]
    loop_step(4) [OF Cons.prems]
  from Cons.prems have rn: "r \<notin> set rs" and drs: "distinct rs" by simp_all
  have E: "has_vehicle_exited ?w' r = has_vehicle_exited ?w2 r"
    using rn by (rule move_all_exited_head)
  have "model_vehicles (model ?w') =
          filter (\<lambda>(k, r'). \<not> (r' \<in> set rs \<and> has_vehicle_exited ?w' r'))
            (model_vehicles (model ?w2))"
    using st(2) drs st(3) by (rule Cons.IH)
  also have "\<dots> = filter (\<lambda>(k, r'). \<not> (r' \<in> set (r # rs) \<and> has_vehicle_exited ?w' r')) ?reg"
    unfolding st(1) filter_filter
    by (rule filter_cong [OF refl]) (auto simp: E)
  finally show ?case by (simp only: move_all_Cons)
qed

lemma remove_vehicle_stats:
  assumes "map_of (model_vehicles (model w)) k = Some r"
  shows "completed_vehicles (stats (model (remove_vehicle w k))) =
           completed_vehicles (stats (model w)) + (if crashed (state (vehicle_at w r)) then 0 else 1)"
    and "crashed_vehicles (stats (model (remove_vehicle w k))) =
           crashed_vehicles (stats (model w)) + (if crashed (state (vehicle_at w r)) then 1 else 0)"
    and "active_vehicles (stats (model (remove_vehicle w k))) = active_vehicles (stats (model w)) - 1"
    and "total_vehicles (stats (model (remove_vehicle w k))) = total_vehicles (stats (model w))"
  using assms by (simp_all add: remove_vehicle_def Let_def split: option.splits)

lemma remove_vehicle_drivers:
  assumes "map_of (model_vehicles (model w)) k = Some r"
  shows "drivers (model (remove_vehicle w k)) =
           (case driver (vehicle_at w r) of
              None \<Rightarrow> drivers (model w)
            | Some d \<Rightarrow> AList.delete (get_id (driver_at w d)) (drivers (model w)))"
proof (cases "driver (vehicle_at w r)")
  case None
  with assms show ?thesis by (simp add: remove_vehicle_def Let_def)
next
  case (Some d)
  show ?thesis
  proof (cases "map_of (drivers (model w)) (get_id (driver_at w d))")
    case None
    then have "get_id (driver_at w d) \<notin> fst ` set (drivers (model w))"
      by (simp add: map_of_eq_None_iff)
    with assms Some None show ?thesis by (simp add: remove_vehicle_def Let_def)
  next
    case (Some y)
    with assms \<open>driver (vehicle_at w r) = Some d\<close> show ?thesis
      by (simp add: remove_vehicle_def Let_def)
  qed
qed


lemma move_all_crashed [simp]:
  "crashed (state (vehicle_at (move_all w clock dt rs) r')) = crashed (state (vehicle_at w r'))"
  unfolding move_all_def
  by (rule fold_preserves) (simp add: move_and_check_def Let_def)

lemma move_and_check_stats:
  assumes "map_of (model_vehicles (model w)) (vehicle_id (vehicle_at w r)) = Some r"
  shows "completed_vehicles (stats (model (move_and_check clock dt r w))) =
           completed_vehicles (stats (model w))
           + (if has_vehicle_exited (move_and_check clock dt r w) r
                 \<and> \<not> crashed (state (vehicle_at w r)) then 1 else 0)"
    and "crashed_vehicles (stats (model (move_and_check clock dt r w))) =
           crashed_vehicles (stats (model w))
           + (if has_vehicle_exited (move_and_check clock dt r w) r
                 \<and> crashed (state (vehicle_at w r)) then 1 else 0)"
proof -
  let ?w1 = "Vehicle_move w r (clock r) dt"
  have m: "map_of (model_vehicles (model ?w1)) (vehicle_id (vehicle_at w r)) = Some r"
    using assms by simp
  note rs = remove_vehicle_stats [OF m]
  show "completed_vehicles (stats (model (move_and_check clock dt r w))) =
           completed_vehicles (stats (model w))
           + (if has_vehicle_exited (move_and_check clock dt r w) r
                 \<and> \<not> crashed (state (vehicle_at w r)) then 1 else 0)"
    unfolding move_and_check_exited
    by (simp add: move_and_check_def Let_def rs(1))
  show "crashed_vehicles (stats (model (move_and_check clock dt r w))) =
           crashed_vehicles (stats (model w))
           + (if has_vehicle_exited (move_and_check clock dt r w) r
                 \<and> crashed (state (vehicle_at w r)) then 1 else 0)"
    unfolding move_and_check_exited
    by (simp add: move_and_check_def Let_def rs(2))
qed

lemma move_all_stats:
  assumes "registry_consistent w" and "distinct rs"
    and "set rs \<subseteq> snd ` set (model_vehicles (model w))"
  shows "completed_vehicles (stats (model (move_all w clock dt rs))) =
           completed_vehicles (stats (model w))
           + int (length (filter (\<lambda>r. has_vehicle_exited (move_all w clock dt rs) r
                                      \<and> \<not> crashed (state (vehicle_at w r))) rs))
       \<and> crashed_vehicles (stats (model (move_all w clock dt rs))) =
           crashed_vehicles (stats (model w))
           + int (length (filter (\<lambda>r. has_vehicle_exited (move_all w clock dt rs) r
                                      \<and> crashed (state (vehicle_at w r))) rs))"
  using assms
proof (induction rs arbitrary: w)
  case Nil
  then show ?case by (simp add: move_all_def)
next
  case (Cons r rs)
  let ?w2 = "move_and_check clock dt r w"
  let ?w' = "move_all ?w2 clock dt rs"
  note st = loop_step(1-3) [OF Cons.prems, where clock = clock and dt = dt]
    loop_step(4) [OF Cons.prems]
  note ms = move_and_check_stats [OF st(4), where clock = clock and dt = dt]
  from Cons.prems have rn: "r \<notin> set rs" and drs: "distinct rs" by simp_all
  have E: "has_vehicle_exited ?w' r = has_vehicle_exited ?w2 r"
    using rn by (rule move_all_exited_head)
  have cr: "\<And>r'. crashed (state (vehicle_at ?w2 r')) = crashed (state (vehicle_at w r'))"
    by (simp add: move_and_check_def Let_def)
  from Cons.IH [OF st(2) drs st(3)]
  show ?case
    by (simp only: move_all_Cons) (simp add: ms E cr)
qed


lemma move_and_check_drivers:
  assumes "map_of (model_vehicles (model w)) (vehicle_id (vehicle_at w r)) = Some r"
  shows "drivers (model (move_and_check clock dt r w)) =
     (if has_vehicle_exited (move_and_check clock dt r w) r
      then (case driver (vehicle_at w r) of
              None \<Rightarrow> drivers (model w)
            | Some d \<Rightarrow> AList.delete (get_id (driver_at w d)) (drivers (model w)))
      else drivers (model w))"
proof -
  let ?w1 = "Vehicle_move w r (clock r) dt"
  have m: "map_of (model_vehicles (model ?w1)) (vehicle_id (vehicle_at w r)) = Some r"
    using assms by simp
  show ?thesis
    unfolding move_and_check_exited
    by (simp add: move_and_check_def Let_def remove_vehicle_drivers [OF m] split: option.splits)
qed

lemma move_and_check_drivers_subset:
  assumes "map_of (model_vehicles (model w)) (vehicle_id (vehicle_at w r)) = Some r"
  shows "fst ` set (drivers (model (move_and_check clock dt r w))) \<subseteq> fst ` set (drivers (model w))"
    and "has_vehicle_exited (move_and_check clock dt r w) r \<Longrightarrow> driver (vehicle_at w r) = Some d \<Longrightarrow>
         get_id (driver_at w d) \<notin> fst ` set (drivers (model (move_and_check clock dt r w)))"
proof -
  note e = move_and_check_drivers [OF assms, of clock dt]
  show "fst ` set (drivers (model (move_and_check clock dt r w))) \<subseteq> fst ` set (drivers (model w))"
    unfolding e
    using dom_delete_subset [of "get_id (driver_at w (the (driver (vehicle_at w r))))" "drivers (model w)"]
    by (cases "driver (vehicle_at w r)") auto
  show "get_id (driver_at w d) \<notin> fst ` set (drivers (model (move_and_check clock dt r w)))"
    if "has_vehicle_exited (move_and_check clock dt r w) r" "driver (vehicle_at w r) = Some d"
    unfolding e using that by (simp add: delete_notin_dom)
qed

lemma move_all_drivers:
  assumes "registry_consistent w" and "distinct rs"
    and "set rs \<subseteq> snd ` set (model_vehicles (model w))"
  shows "fst ` set (drivers (model (move_all w clock dt rs))) \<subseteq> fst ` set (drivers (model w))
       \<and> (\<forall>r \<in> set rs. \<forall>d. has_vehicle_exited (move_all w clock dt rs) r
              \<and> driver (vehicle_at w r) = Some d \<longrightarrow>
              get_id (driver_at w d) \<notin> fst ` set (drivers (model (move_all w clock dt rs))))"
  using assms
proof (induction rs arbitrary: w)
  case Nil
  then show ?case by (simp add: move_all_def)
next
  case (Cons r rs)
  let ?w2 = "move_and_check clock dt r w"
  let ?w' = "move_all ?w2 clock dt rs"
  note st = loop_step(1-3) [OF Cons.prems, where clock = clock and dt = dt]
    loop_step(4) [OF Cons.prems]
  note ds = move_and_check_drivers_subset [OF st(4), where clock = clock and dt = dt]
  from Cons.prems have rn: "r \<notin> set rs" and drs: "distinct rs" by simp_all
  have E: "has_vehicle_exited ?w' r = has_vehicle_exited ?w2 r"
    using rn by (rule move_all_exited_head)
  from Cons.IH [OF st(2) drs st(3)]
  have ih1: "fst ` set (drivers (model ?w')) \<subseteq> fst ` set (drivers (model ?w2))"
    and ih2: "\<And>r' d. r' \<in> set rs \<Longrightarrow> has_vehicle_exited ?w' r' \<Longrightarrow>
                driver (vehicle_at w r') = Some d \<Longrightarrow>
                get_id (driver_at w d) \<notin> fst ` set (drivers (model ?w'))"
    by simp_all
  have a: "fst ` set (drivers (model ?w')) \<subseteq> fst ` set (drivers (model w))"
    using ih1 ds(1) by blast
  have b: "get_id (driver_at w d) \<notin> fst ` set (drivers (model ?w'))"
    if "r' \<in> set (r # rs)" "has_vehicle_exited ?w' r'" "driver (vehicle_at w r') = Some d" for r' d
  proof (cases "r' = r")
    case True
    with that E have "get_id (driver_at w d) \<notin> fst ` set (drivers (model ?w2))"
      using ds(2) by blast
    with ih1 show ?thesis by blast
  next
    case False
    with that have "r' \<in> set rs" by simp
    then show ?thesis using that(2,3) by (rule ih2)
  qed
  show ?case
    unfolding move_all_Cons using a b by blast
qed

end
